theory Spec2Isabelle
  imports Main
begin

section \<open>The makefile parser of pymake (parser.py)\<close>

text \<open>
  A shallow embedding of \<^verbatim>\<open>src/pymake/parser.py\<close>: the logical line (\<^verbatim>\<open>Data\<close>,
  \<^verbatim>\<open>DynamicData\<close>), the token lists with their regular expressions, the four character
  iterators (Python generators, modelled as explicit suspended states), the expansion
  parser \<^verbatim>\<open>parsemakesyntax\<close>, the condition parsers and the statement loop
  \<^verbatim>\<open>parsestream\<close>. Python exceptions are values of the type \<open>error\<close>; every function
  that can raise returns \<open>error + result\<close>. Objects that the source mutates (the logical
  line, the log) are passed in and returned.
\<close>

subsection \<open>Characters and strings\<close>

abbreviation BS :: char where "BS \<equiv> CHR 0x5C"
abbreviation LF :: char where "LF \<equiv> CHR 0x0A"
abbreviation TAB :: char where "TAB \<equiv> CHR 0x09"

text \<open>\<^verbatim>\<open>str.isspace\<close> on one byte, which is also the class \<^verbatim>\<open>\s\<close> of the 8-bit regular
  expressions: space, TAB, LF, VT, FF, CR.\<close>

definition isspace :: "char \<Rightarrow> bool" where
  "isspace c \<longleftrightarrow> c \<in> set [CHR '' '', CHR 0x09, CHR 0x0A, CHR 0x0B, CHR 0x0C, CHR 0x0D]"

text \<open>\<^verbatim>\<open>str.isspace\<close> on a string: not empty and whitespace only.\<close>

definition str_isspace :: "string \<Rightarrow> bool" where
  "str_isspace s \<longleftrightarrow> s \<noteq> [] \<and> list_all isspace s"

definition lstrip :: "string \<Rightarrow> string" where
  "lstrip s = dropWhile isspace s"

definition rstrip :: "string \<Rightarrow> string" where
  "rstrip s = rev (dropWhile isspace (rev s))"

definition startswith :: "string \<Rightarrow> string \<Rightarrow> bool" where
  "startswith s t \<longleftrightarrow> take (length t) s = t"

definition endswith :: "string \<Rightarrow> string \<Rightarrow> bool" where
  "endswith s t \<longleftrightarrow> length t \<le> length s \<and> drop (length s - length t) s = t"

text \<open>The slice \<^verbatim>\<open>s[i:j]\<close> for offsets \<open>0 \<le> i\<close>, \<open>0 \<le> j\<close> (empty when \<open>j \<le> i\<close>).\<close>

definition slice :: "string \<Rightarrow> nat \<Rightarrow> nat \<Rightarrow> string" where
  "slice s i j = take (j - i) (drop i s)"

subsection \<open>Locations and errors\<close>

record location =
  path :: string
  line :: nat
  column :: nat

text \<open>Modelled from the spec: \<^verbatim>\<open>parserdata.Location.__add__\<close> is not part of parser.py.
  Advancing a location by a string re-numbers lines on embedded LF and resets the column
  accordingly.\<close>

definition loc_add :: "location \<Rightarrow> string \<Rightarrow> location" where
  "loc_add l s =
     (if LF \<in> set s
      then l\<lparr>line := line l + length (filter (\<lambda>c. c = LF) s),
             column := length (takeWhile (\<lambda>c. c \<noteq> LF) (rev s))\<rparr>
      else l\<lparr>column := column l + length s\<rparr>)"

text \<open>The exceptions that can leave the parser. \<open>SyntaxError\<close> is the parser's own
  (\<^verbatim>\<open>class SyntaxError(util.MakeError)\<close>, a message and a location); the others are
  Python's: a failed \<^verbatim>\<open>assert\<close>, the read of a local variable that was never bound,
  \<^verbatim>\<open>None\<close> where an integer is required, an index past the end of a string, a key that
  a dictionary does not have, an attribute that an object does not have.\<close>

datatype error =
    SyntaxError string location
  | AssertionError
  | UnboundLocalError
  | TypeError
  | IndexError
  | KeyError
  | AttributeError

subsection \<open>The logical line: Data and DynamicData\<close>

text \<open>\<^verbatim>\<open>data\<close> is the buffer, \<^verbatim>\<open>locs\<close> the list \<^verbatim>\<open>_locs\<close> of anchors (offset, location),
  \<^verbatim>\<open>lineiter\<close> what the line source will still yield, as (lineno, line). A plain
  \<^verbatim>\<open>Data\<close> is a \<^verbatim>\<open>DynamicData\<close> whose line source is empty.\<close>

record dyndata =
  data :: string
  locs :: "(nat \<times> location) list"
  lineiter :: "(nat \<times> string) list"
  dpath :: string

definition DynamicData :: "(nat \<times> string) list \<Rightarrow> string \<Rightarrow> dyndata" where
  "DynamicData li p = \<lparr>data = [], locs = [], lineiter = li, dpath = p\<rparr>"

definition append_data :: "dyndata \<Rightarrow> string \<Rightarrow> location \<Rightarrow> dyndata" where
  "append_data d s loc = d\<lparr>locs := locs d @ [(length (data d), loc)], data := data d @ s\<rparr>"


definition readline :: "dyndata \<Rightarrow> bool \<times> dyndata" where
  "readline d =
     (case lineiter d of
        [] \<Rightarrow> (False, d)
      | (lineno, ln) # rest \<Rightarrow>
          (True, append_data (d\<lparr>lineiter := rest\<rparr>) ln
                   \<lparr>path = dpath d, line = lineno, column = 0\<rparr>))"

text \<open>\<^verbatim>\<open>findlast\<close>: the loop variable \<^verbatim>\<open>f\<close> is unbound (\<open>None\<close>) until the predicate has
  held once; returning it unbound raises \<^verbatim>\<open>UnboundLocalError\<close>.\<close>

fun findlast_from :: "'a option \<Rightarrow> ('a \<Rightarrow> bool) \<Rightarrow> 'a list \<Rightarrow> error + 'a" where
  "findlast_from f func [] = (case f of None \<Rightarrow> Inl UnboundLocalError | Some x \<Rightarrow> Inr x)"
| "findlast_from f func (i # iterable) =
     (if func i then findlast_from (Some i) func iterable
      else (case f of None \<Rightarrow> Inl UnboundLocalError | Some x \<Rightarrow> Inr x))"

definition findlast :: "('a \<Rightarrow> bool) \<Rightarrow> 'a list \<Rightarrow> error + 'a" where
  "findlast func iterable = findlast_from None func iterable"

text \<open>\<^verbatim>\<open>Data.getloc\<close>. The offset is \<^verbatim>\<open>None\<close> or an integer; after the two clamps the
  slice \<^verbatim>\<open>data[begin:offset]\<close> has \<open>0 \<le> begin \<le> offset\<close> whenever \<^verbatim>\<open>findlast\<close> returned.\<close>

definition getloc :: "dyndata \<Rightarrow> int option \<Rightarrow> error + location" where
  "getloc d offset =
     (let n = int (length (data d));
          offset1 = (case offset of None \<Rightarrow> n - 1 | Some o1 \<Rightarrow> if o1 \<ge> n then n - 1 else o1);
          offset2 = (if offset1 = - 1 then 0 else offset1)
      in case findlast (\<lambda>(o1, l). int o1 \<le> offset2) (locs d) of
           Inl e \<Rightarrow> Inl e
         | Inr (begin, loc) \<Rightarrow> Inr (loc_add loc (slice (data d) begin (nat offset2))))"

text \<open>\<^verbatim>\<open>getloc\<close> at an offset that is a number, or \<^verbatim>\<open>None\<close>.\<close>

definition getloc_opt :: "dyndata \<Rightarrow> nat option \<Rightarrow> error + location" where
  "getloc_opt d offset = getloc d (map_option int offset)"

definition skipwhitespace :: "dyndata \<Rightarrow> nat \<Rightarrow> nat" where
  "skipwhitespace d offset = offset + length (takeWhile isspace (drop offset (data d)))"

subsection \<open>Token lists and their regular expressions\<close>

text \<open>A \<^verbatim>\<open>TokenList\<close> is determined by its tuple of literal tokens. Each compiled
  expression is an alternation; Python tries the alternatives in order at one position and
  takes the first that matches, so a matcher maps the text at a position to the matched
  token. \<^verbatim>\<open>literals\<close> is the alternation of the escaped tokens.\<close>

type_synonym tokenlist = "string list"

definition emptylist :: "tokenlist \<Rightarrow> bool" where
  "emptylist tlist \<longleftrightarrow> length tlist = 0"

definition literals :: "tokenlist \<Rightarrow> string \<Rightarrow> string option" where
  "literals tlist s = find (startswith s) tlist"

text \<open>\<^verbatim>\<open>simplere\<close>: the join of no alternative is the empty expression, which matches the
  empty string.\<close>

definition simplere :: "tokenlist \<Rightarrow> string \<Rightarrow> string option" where
  "simplere tlist s = (if tlist = [] then Some [] else literals tlist s)"

text \<open>The alternative \<^verbatim>\<open>\\\s+\\\n\<close>: a backslash, whitespace, a backslash and LF.
  Whitespace is never a backslash, so only the longest run of whitespace can be followed by
  the backslash.\<close>

definition awful :: "string \<Rightarrow> string option" where
  "awful s =
     (case s of
        [] \<Rightarrow> None
      | c # r \<Rightarrow>
          if c = BS \<and> takeWhile isspace r \<noteq> [] \<and> startswith (dropWhile isspace r) [BS, LF]
          then Some (BS # takeWhile isspace r @ [BS, LF])
          else None)"

text \<open>The alternative \<^verbatim>\<open>\\.\<close>: a backslash and any character but LF.\<close>

definition bsany :: "string \<Rightarrow> string option" where
  "bsany s = (case s of c # x # r \<Rightarrow> if c = BS \<and> x \<noteq> LF then Some [c, x] else None | _ \<Rightarrow> None)"

text \<open>\<^verbatim>\<open>makefiletokensescaped\<close>, in its order.\<close>

definition makefiletokens :: "string \<Rightarrow> string option" where
  "makefiletokens s =
     (if startswith s [BS, BS, CHR ''#''] then Some [BS, BS, CHR ''#'']
      else if startswith s [BS, CHR ''#''] then Some [BS, CHR ''#'']
      else if startswith s [BS, LF] then Some [BS, LF]
      else case awful s of
        Some t \<Rightarrow> Some t
      | None \<Rightarrow>
         (case bsany s of
            Some t \<Rightarrow> Some t
          | None \<Rightarrow>
             if startswith s ''#'' then Some ''#''
             else if startswith s [LF] then Some [LF]
             else None))"

text \<open>\<^verbatim>\<open>continuationtokensescaped\<close>, in its order.\<close>

definition continuationtokens :: "string \<Rightarrow> string option" where
  "continuationtokens s =
     (if startswith s [BS, LF] then Some [BS, LF]
      else case bsany s of
        Some t \<Rightarrow> Some t
      | None \<Rightarrow> if startswith s [LF] then Some [LF] else None)"

definition makefilere :: "tokenlist \<Rightarrow> string \<Rightarrow> string option" where
  "makefilere tlist s = (case literals tlist s of Some t \<Rightarrow> Some t | None \<Rightarrow> makefiletokens s)"

definition continuationre :: "tokenlist \<Rightarrow> string \<Rightarrow> string option" where
  "continuationre tlist s = (case literals tlist s of Some t \<Rightarrow> Some t | None \<Rightarrow> continuationtokens s)"

text \<open>The tail \<^verbatim>\<open>(\s+|$)\<close> of \<^verbatim>\<open>wslist\<close>: the length it matches.\<close>

definition ws_or_end :: "string \<Rightarrow> nat option" where
  "ws_or_end s =
     (if takeWhile isspace s \<noteq> [] then Some (length (takeWhile isspace s))
      else if s = [] then Some 0
      else None)"

text \<open>\<^verbatim>\<open>wslist\<close>: a token that is not followed by whitespace or the end makes the
  expression fall back to the next alternative. The result is group 1 and the length of the
  whole match.\<close>

fun wslist_alts :: "string list \<Rightarrow> string \<Rightarrow> (string \<times> nat) option" where
  "wslist_alts [] s = None"
| "wslist_alts (t # ts) s =
     (if startswith s t
      then (case ws_or_end (drop (length t) s) of
              Some n \<Rightarrow> Some (t, length t + n)
            | None \<Rightarrow> wslist_alts ts s)
      else wslist_alts ts s)"

definition wslist :: "tokenlist \<Rightarrow> string \<Rightarrow> (string \<times> nat) option" where
  "wslist tlist s = wslist_alts (if tlist = [] then [[]] else tlist) s"

text \<open>\<^verbatim>\<open>regex.search(data, pos=offset)\<close>: the leftmost position from \<open>offset\<close> at which the
  expression matches, as (group 0, start, end).\<close>

fun re_scan :: "(string \<Rightarrow> string option) \<Rightarrow> string \<Rightarrow> nat \<Rightarrow> (string \<times> nat \<times> nat) option" where
  "re_scan m [] pos = (case m [] of Some t \<Rightarrow> Some (t, pos, pos + length t) | None \<Rightarrow> None)"
| "re_scan m (c # cs) pos =
     (case m (c # cs) of
        Some t \<Rightarrow> Some (t, pos, pos + length t)
      | None \<Rightarrow> re_scan m cs (Suc pos))"

definition re_search :: "(string \<Rightarrow> string option) \<Rightarrow> string \<Rightarrow> nat \<Rightarrow> (string \<times> nat \<times> nat) option" where
  "re_search m s pos = (if pos \<le> length s then re_scan m (drop pos s) pos else None)"

text \<open>\<^verbatim>\<open>Data.findtoken\<close>. \<^verbatim>\<open>match(data, pos=o)\<close> matches at \<open>o\<close>, and at the end of the data when
  \<open>o\<close> is past the end; without a match the offset is returned as it was given.\<close>

definition findtoken :: "dyndata \<Rightarrow> nat \<Rightarrow> tokenlist \<Rightarrow> bool \<Rightarrow> string option \<times> nat" where
  "findtoken d o1 tlist skipws =
     (let pos = min o1 (length (data d)) in
      if skipws then
        (case wslist tlist (drop pos (data d)) of
           Some (t, n) \<Rightarrow> (Some t, pos + n)
         | None \<Rightarrow> (None, o1))
      else
        (case simplere tlist (drop pos (data d)) of
           Some t \<Rightarrow> (Some t, pos + length t)
         | None \<Rightarrow> (None, o1)))"

subsection \<open>The character iterators\<close>

text \<open>Each iterator is a Python generator that yields 4-tuples
  \<^verbatim>\<open>(flatstr, token, tokenoffset, afteroffset)\<close>, the last three \<^verbatim>\<open>None\<close> together: an
  item is the chunk and, when there is a token, the token with its two offsets.\<close>

type_synonym item = "string \<times> (string \<times> nat \<times> nat) option"

text \<open>A generator object is the point where its body is suspended, with the local
  variables that are live there:
  \<^item> \<open>GStart offset\<close>: created and not yet resumed (the offset may be \<^verbatim>\<open>None\<close>);
  \<^item> \<open>GLoop offset\<close>: at a \<^verbatim>\<open>yield\<close> after which the \<^verbatim>\<open>while\<close> loop goes on at this offset;
  \<^item> \<open>GCont end\<close>: at the \<^verbatim>\<open>yield\<close> of a continuation, before \<^verbatim>\<open>d.readline()\<close>;
  \<^item> \<open>GComment end\<close>: at the \<^verbatim>\<open>yield\<close> before a comment is drained (makefile regime);
  \<^item> \<open>GReturn\<close>: at a \<^verbatim>\<open>yield\<close> that a \<^verbatim>\<open>return\<close> follows, or already exhausted;
  \<^item> \<open>GDefLoop offset definecount startoffset\<close>, \<open>GDefCont end definecount startoffset\<close>:
    the same two points in \<^verbatim>\<open>iterdefinechars\<close>;
  \<^item> \<open>GDefBreak startoffset\<close>: at the \<^verbatim>\<open>yield\<close> that \<^verbatim>\<open>break\<close> follows in
    \<^verbatim>\<open>iterdefinechars\<close>.
  Resuming a generator (\<^verbatim>\<open>next()\<close>) gives an error, or the item it yields (\<open>None\<close> for
  \<^verbatim>\<open>StopIteration\<close>), its new state and the logical line, which it may have extended.\<close>

datatype gstate =
    GStart "nat option"
  | GLoop nat
  | GCont nat
  | GComment nat
  | GReturn
  | GDefLoop nat int nat
  | GDefCont nat int nat
  | GDefBreak nat

type_synonym resumed = "error + (item option \<times> gstate \<times> dyndata)"

text \<open>The branches every regime shares once the regime's own tokens are dealt with
  (the last \<^verbatim>\<open>if\<close>/\<^verbatim>\<open>elif\<close>/\<^verbatim>\<open>else\<close> of each loop): a backslash before a token of the list
  hides the backslash and surfaces the token, a backslash before anything else is literal
  text, any other match is a token.\<close>

definition yield_token :: "tokenlist \<Rightarrow> dyndata \<Rightarrow> nat \<Rightarrow> string \<Rightarrow> nat \<Rightarrow> nat \<Rightarrow> item" where
  "yield_token tlist d offset token start end1 =
     (if startswith token [BS] then
        (if drop 1 token \<in> set tlist
         then (slice (data d) offset (start + 1), Some (drop 1 token, start + 1, end1))
         else (slice (data d) offset end1, None))
      else (slice (data d) offset start, Some (token, start, end1)))"

text \<open>\<^verbatim>\<open>iterdata\<close>.\<close>

definition iterdata_loop :: "tokenlist \<Rightarrow> dyndata \<Rightarrow> nat \<Rightarrow> resumed" where
  "iterdata_loop tlist d offset =
     (if offset < length (data d) then
        (case re_search (simplere tlist) (data d) offset of
           None \<Rightarrow> Inr (Some (drop offset (data d), None), GReturn, d)
         | Some (token, start, end1) \<Rightarrow>
             Inr (Some (slice (data d) offset start, Some (token, start, end1)), GLoop end1, d))
      else Inr (None, GReturn, d))"

definition iterdata_next :: "tokenlist \<Rightarrow> gstate \<Rightarrow> dyndata \<Rightarrow> resumed" where
  "iterdata_next tlist g d =
     (case g of
        GStart offset \<Rightarrow>
          if emptylist tlist then Inr (Some (data d, None), GReturn, d)
          else (case offset of
                  None \<Rightarrow> Inl TypeError
                | Some offset1 \<Rightarrow> iterdata_loop tlist d offset1)
      | GLoop offset \<Rightarrow> iterdata_loop tlist d offset
      | _ \<Rightarrow> Inr (None, GReturn, d))"

text \<open>\<^verbatim>\<open>itermakefilechars\<close>: one pass of the \<^verbatim>\<open>while\<close> loop, from its head to the next
  \<^verbatim>\<open>yield\<close>. The result is the item and the point of suspension, \<open>None\<close> when the loop
  ends.\<close>

definition itermakefilechars_loop ::
    "tokenlist \<Rightarrow> dyndata \<Rightarrow> nat \<Rightarrow> error + (item \<times> gstate) option" where
  "itermakefilechars_loop tlist d offset =
     (if offset < length (data d) then
        (case re_search (makefilere tlist) (data d) offset of
           None \<Rightarrow> Inr (Some ((drop offset (data d), None), GReturn))
         | Some (token, start, end1) \<Rightarrow>
             if token = [LF] then
               (if end1 = length (data d)
                then Inr (Some ((slice (data d) offset start, None), GReturn))
                else Inl AssertionError)
             else if token = ''#'' then
               Inr (Some ((slice (data d) offset start, None), GComment end1))
             else if token = [BS, BS, CHR ''#''] then
               Inr (Some ((slice (data d) offset (start + 1), None), GComment end1))
             else if token = [BS, LF] then
               Inr (Some ((rstrip (slice (data d) offset start) @ '' '', None), GCont end1))
             else if startswith token [BS] \<and> endswith token [LF] then
               (if end1 = length (data d)
                then Inr (Some ((slice (data d) offset start @ [BS, CHR '' ''], None), GCont end1))
                else Inl AssertionError)
             else if token = [BS, CHR ''#''] then
               Inr (Some ((slice (data d) offset start @ ''#'', None), GLoop end1))
             else Inr (Some (yield_token tlist d offset token start end1, GLoop end1)))
      else Inr None)"

text \<open>The comment branches run \<^verbatim>\<open>for s in itermakefilechars(d, end, emptytokenlist): pass\<close>:
  a second generator over the same logical line, with the empty token list, resumed until
  it is exhausted. It can read further physical lines (a comment can be continued), and it
  can meet a comment in turn. \<open>lines_left\<close> bounds the work that is left.\<close>

definition lines_left :: "dyndata \<Rightarrow> nat" where
  "lines_left d = sum_list (map (\<lambda>l. Suc (length (snd l))) (lineiter d)) + length (data d)"

fun gweight :: "dyndata \<Rightarrow> gstate \<Rightarrow> nat" where
  "gweight d (GStart None) = 0"
| "gweight d (GStart (Some offset)) = 3 * (lines_left d - offset) + 1"
| "gweight d (GLoop offset) = 3 * (lines_left d - offset)"
| "gweight d (GCont end1) = 3 * (lines_left d - end1) + 1"
| "gweight d (GComment end1) = 3 * (lines_left d - end1) + 2"
| "gweight d g = 0"

lemma re_scan_bounds:
  assumes "re_scan m s pos = Some (t, a, b)"
  shows "pos \<le> a \<and> a \<le> pos + length s \<and> b = a + length t \<and> m (drop (a - pos) s) = Some t"
  using assms
proof (induction s arbitrary: pos)
  case Nil
  then show ?case by (auto split: option.splits)
next
  case (Cons c cs)
  show ?case
  proof (cases "m (c # cs)")
    case None
    with Cons.prems have "re_scan m cs (Suc pos) = Some (t, a, b)" by simp
    from Cons.IH [OF this]
    have ih: "Suc pos \<le> a" "a \<le> Suc pos + length cs" "b = a + length t"
      "m (drop (a - Suc pos) cs) = Some t" by auto
    from ih(1) have "a - pos = Suc (a - Suc pos)" by simp
    then have "drop (a - pos) (c # cs) = drop (a - Suc pos) cs" by simp
    with ih show ?thesis by simp
  next
    case (Some u)
    with Cons.prems show ?thesis by auto
  qed
qed

lemma re_search_bounds:
  assumes "re_search m s pos = Some (t, a, b)"
  shows "pos \<le> a \<and> a \<le> length s \<and> b = a + length t \<and> m (drop a s) = Some t"
proof -
  from assms have le: "pos \<le> length s" and sc: "re_scan m (drop pos s) pos = Some (t, a, b)"
    by (auto simp: re_search_def split: if_splits)
  from re_scan_bounds [OF sc] le show ?thesis by auto
qed

lemma startswith_length:
  assumes "startswith s t"
  shows "length t \<le> length s"
proof -
  from assms have "length (take (length t) s) = length t" by (simp add: startswith_def)
  then show ?thesis by simp
qed

lemma awful_length: "awful s = Some t \<Longrightarrow> t \<noteq> [] \<and> length t \<le> length s"
proof -
  assume a: "awful s = Some t"
  then obtain c r where s: "s = c # r" by (cases s) (auto simp: awful_def)
  with a have t: "t = BS # takeWhile isspace r @ [BS, LF]"
    and sw: "startswith (dropWhile isspace r) [BS, LF]"
    by (auto simp: awful_def split: if_splits)
  from startswith_length [OF sw] have "2 \<le> length (dropWhile isspace r)" by simp
  moreover have "length r = length (takeWhile isspace r) + length (dropWhile isspace r)"
    by (metis length_append takeWhile_dropWhile_id)
  ultimately show ?thesis using s t by simp
qed

lemma bsany_length: "bsany s = Some t \<Longrightarrow> t \<noteq> [] \<and> length t \<le> length s"
  by (auto simp: bsany_def split: list.splits if_splits)

lemma makefiletokens_length: "makefiletokens s = Some t \<Longrightarrow> t \<noteq> [] \<and> length t \<le> length s"
  by (auto simp: makefiletokens_def split: if_splits option.splits
      dest: startswith_length awful_length bsany_length)

lemma makefilere_empty_length: "makefilere [] s = Some t \<Longrightarrow> t \<noteq> [] \<and> length t \<le> length s"
  by (simp add: makefilere_def literals_def makefiletokens_length)

lemma itermakefilechars_loop_progress:
  assumes "itermakefilechars_loop [] d offset = Inr (Some (it, g))"
  shows "offset < length (data d) \<and>
    (g = GReturn \<or> (\<exists>e. offset < e \<and> e \<le> length (data d) \<and> g \<in> {GLoop e, GCont e, GComment e}))"
proof -
  from assms have lt: "offset < length (data d)"
    by (auto simp: itermakefilechars_loop_def split: if_splits)
  show ?thesis
  proof (cases "re_search (makefilere []) (data d) offset")
    case None
    with assms lt show ?thesis by (simp add: itermakefilechars_loop_def)
  next
    case (Some r)
    obtain t a b where r: "r = (t, a, b)" by (cases r)
    from re_search_bounds [OF Some [unfolded r]]
    have b: "offset \<le> a" "a \<le> length (data d)" "b = a + length t"
      and m: "makefilere [] (drop a (data d)) = Some t" by auto
    from makefilere_empty_length [OF m]
    have "0 < length t" "length t \<le> length (data d) - a" by auto
    with b have "offset < b" "b \<le> length (data d)" by linarith+
    with assms lt Some r show ?thesis
      by (auto simp: itermakefilechars_loop_def split: if_splits)
  qed
qed

lemma lines_left_readline: "lines_left (snd (readline d)) \<le> lines_left d"
  by (auto simp: readline_def lines_left_def append_data_def split: list.splits)

lemma lines_left_data: "length (data d) \<le> lines_left d"
  by (simp add: lines_left_def)

function itermakefilechars_drain :: "dyndata \<Rightarrow> gstate \<Rightarrow> error + dyndata" where
  "itermakefilechars_drain d (GStart None) = Inl TypeError"
| "itermakefilechars_drain d (GStart (Some offset)) = itermakefilechars_drain d (GLoop offset)"
| "itermakefilechars_drain d (GLoop offset) =
     (case itermakefilechars_loop [] d offset of
        Inl e \<Rightarrow> Inl e
      | Inr None \<Rightarrow> Inr d
      | Inr (Some (it, g)) \<Rightarrow> itermakefilechars_drain d g)"
| "itermakefilechars_drain d (GCont end1) =
     itermakefilechars_drain (snd (readline d)) (GLoop (skipwhitespace (snd (readline d)) end1))"
| "itermakefilechars_drain d (GComment end1) = itermakefilechars_drain d (GStart (Some end1))"
| "itermakefilechars_drain d GReturn = Inr d"
| "itermakefilechars_drain d (GDefLoop offset definecount startoffset) = Inr d"
| "itermakefilechars_drain d (GDefCont end1 definecount startoffset) = Inr d"
| "itermakefilechars_drain d (GDefBreak startoffset) = Inr d"
  by pat_completeness auto
termination
proof (relation "measure (\<lambda>(d, g). gweight d g)", goal_cases)
  case 1
  show ?case by simp
next
  case (2 d offset)
  show ?case by simp
next
  case (3 d offset x2 x2a x y)
  then have "itermakefilechars_loop [] d offset = Inr (Some (x, y))" by simp
  from itermakefilechars_loop_progress [OF this]
  have lt: "offset < length (data d)"
    and g: "y = GReturn \<or> (\<exists>e. offset < e \<and> e \<le> length (data d) \<and>
              (y = GLoop e \<or> y = GCont e \<or> y = GComment e))" by auto
  from lt lines_left_data [of d] have "offset < lines_left d" by linarith
  moreover have "\<And>e. offset < e \<Longrightarrow> e \<le> length (data d) \<Longrightarrow>
      3 * (lines_left d - e) + 2 < 3 * (lines_left d - offset)"
    using lines_left_data [of d] by linarith
  ultimately have "gweight d y < gweight d (GLoop offset)"
    using g by (elim disjE exE conjE) (simp, force, force, force)
  then show ?case by simp
next
  case (4 d end1)
  have "skipwhitespace (snd (readline d)) end1 \<ge> end1" by (simp add: skipwhitespace_def)
  with lines_left_readline [of d] show ?case by simp
next
  case (5 d end1)
  show ?case by simp
qed

text \<open>What a generator hands to \<^verbatim>\<open>next()\<close> after one pass of its loop.\<close>

definition suspend :: "error + (item \<times> gstate) option \<Rightarrow> dyndata \<Rightarrow> resumed" where
  "suspend r d =
     (case r of
        Inl e \<Rightarrow> Inl e
      | Inr None \<Rightarrow> Inr (None, GReturn, d)
      | Inr (Some (it, g)) \<Rightarrow> Inr (Some it, g, d))"

definition itermakefilechars_next :: "tokenlist \<Rightarrow> gstate \<Rightarrow> dyndata \<Rightarrow> resumed" where
  "itermakefilechars_next tlist g d =
     (case g of
        GStart None \<Rightarrow> Inl TypeError
      | GStart (Some offset) \<Rightarrow> suspend (itermakefilechars_loop tlist d offset) d
      | GLoop offset \<Rightarrow> suspend (itermakefilechars_loop tlist d offset) d
      | GCont end1 \<Rightarrow>
          (let d' = snd (readline d);
               offset = skipwhitespace d' end1
           in suspend (itermakefilechars_loop tlist d' offset) d')
      | GComment end1 \<Rightarrow>
          (case itermakefilechars_drain d (GStart (Some end1)) of
             Inl e \<Rightarrow> Inl e
           | Inr d' \<Rightarrow> Inr (None, GReturn, d'))
      | _ \<Rightarrow> Inr (None, GReturn, d))"

text \<open>\<^verbatim>\<open>itercommandchars\<close>.\<close>

definition itercommandchars_loop ::
    "tokenlist \<Rightarrow> dyndata \<Rightarrow> nat \<Rightarrow> error + (item \<times> gstate) option" where
  "itercommandchars_loop tlist d offset =
     (if offset < length (data d) then
        (case re_search (continuationre tlist) (data d) offset of
           None \<Rightarrow> Inr (Some ((drop offset (data d), None), GReturn))
         | Some (token, start, end1) \<Rightarrow>
             if token = [LF] then
               (if end1 = length (data d)
                then Inr (Some ((slice (data d) offset start, None), GReturn))
                else Inl AssertionError)
             else if token = [BS, LF] then
               Inr (Some ((slice (data d) offset end1, None), GCont end1))
             else Inr (Some (yield_token tlist d offset token start end1, GLoop end1)))
      else Inr None)"

definition itercommandchars_next :: "tokenlist \<Rightarrow> gstate \<Rightarrow> dyndata \<Rightarrow> resumed" where
  "itercommandchars_next tlist g d =
     (case g of
        GStart None \<Rightarrow> Inl TypeError
      | GStart (Some offset) \<Rightarrow> suspend (itercommandchars_loop tlist d offset) d
      | GLoop offset \<Rightarrow> suspend (itercommandchars_loop tlist d offset) d
      | GCont end1 \<Rightarrow>
          (let d' = snd (readline d);
               offset = (if end1 < length (data d') \<and> data d' ! end1 = TAB then end1 + 1 else end1)
           in suspend (itercommandchars_loop tlist d' offset) d')
      | _ \<Rightarrow> Inr (None, GReturn, d))"

text \<open>\<^verbatim>\<open>iterdefinechars\<close>, with its local function \<^verbatim>\<open>checkfortoken\<close>.\<close>

definition definestokenlist :: tokenlist where
  "definestokenlist = [''define'', ''endef'']"

definition checkfortoken :: "dyndata \<Rightarrow> nat \<Rightarrow> int" where
  "checkfortoken d o1 =
     (if o1 \<ge> length (data d) then 0
      else if data d ! o1 = TAB then 0
      else (let o2 = skipwhitespace d o1;
                token = fst (findtoken d o2 definestokenlist True)
            in if token = Some ''define'' then 1
               else if token = Some ''endef'' then - 1
               else 0))"


definition unterminated_define :: "dyndata \<Rightarrow> nat \<Rightarrow> resumed" where
  "unterminated_define d startoffset =
     (case getloc d (Some (int startoffset)) of
        Inl e \<Rightarrow> Inl e
      | Inr loc \<Rightarrow> Inl (SyntaxError ''Unterminated define'' loc))"

definition iterdefinechars_loop :: "tokenlist \<Rightarrow> dyndata \<Rightarrow> nat \<Rightarrow> int \<Rightarrow> nat \<Rightarrow> resumed" where
  "iterdefinechars_loop tlist d offset definecount startoffset =
     (if offset < length (data d) then
        (case re_search (continuationre tlist) (data d) offset of
           None \<Rightarrow> Inr (Some (drop offset (data d), None), GDefBreak startoffset, d)
         | Some (token, start, end1) \<Rightarrow>
             if token = [BS, LF] then
               Inr (Some (rstrip (slice (data d) offset start) @ '' '', None),
                    GDefCont end1 definecount startoffset, d)
             else if token = [LF] then
               (if end1 = length (data d) then
                  (let d' = snd (readline d);
                       definecount' = definecount + checkfortoken d' end1
                   in if definecount' = 0
                      then Inr (Some (slice (data d') offset start, None), GReturn, d')
                      else Inr (Some (slice (data d') offset end1, None),
                                GDefLoop end1 definecount' startoffset, d'))
                else Inl AssertionError)
             else Inr (Some (yield_token tlist d offset token start end1),
                       GDefLoop end1 definecount startoffset, d))
      else unterminated_define d startoffset)"

definition iterdefinechars_next :: "tokenlist \<Rightarrow> gstate \<Rightarrow> dyndata \<Rightarrow> resumed" where
  "iterdefinechars_next tlist g d =
     (case g of
        GStart None \<Rightarrow> Inl TypeError
      | GStart (Some offset) \<Rightarrow>
          (let definecount = 1 + checkfortoken d offset
           in if definecount = 0 then Inr (None, GReturn, d)
              else iterdefinechars_loop tlist d offset definecount offset)
      | GDefLoop offset definecount startoffset \<Rightarrow>
          iterdefinechars_loop tlist d offset definecount startoffset
      | GDefCont end1 definecount startoffset \<Rightarrow>
          (let d' = snd (readline d);
               offset = skipwhitespace d' end1
           in iterdefinechars_loop tlist d' offset definecount startoffset)
      | GDefBreak startoffset \<Rightarrow> unterminated_define d startoffset
      | _ \<Rightarrow> Inr (None, GReturn, d))"

text \<open>The iterator function that a caller passes as \<^verbatim>\<open>iterfunc\<close>, and a generator object:
  the function, its token list and the point of suspension.\<close>

datatype iterfunc = Iterdata | Itermakefilechars | Itercommandchars | Iterdefinechars

type_synonym generator = "iterfunc \<times> tokenlist \<times> gstate"

definition new_generator :: "iterfunc \<Rightarrow> nat option \<Rightarrow> tokenlist \<Rightarrow> generator" where
  "new_generator f offset tlist = (f, tlist, GStart offset)"

definition iter_next :: "iterfunc \<Rightarrow> tokenlist \<Rightarrow> gstate \<Rightarrow> dyndata \<Rightarrow> resumed" where
  "iter_next f tlist g d =
     (case f of
        Iterdata \<Rightarrow> iterdata_next tlist g d
      | Itermakefilechars \<Rightarrow> itermakefilechars_next tlist g d
      | Itercommandchars \<Rightarrow> itercommandchars_next tlist g d
      | Iterdefinechars \<Rightarrow> iterdefinechars_next tlist g d)"

text \<open>\<^verbatim>\<open>di.next()\<close>: \<open>None\<close> is \<^verbatim>\<open>StopIteration\<close>.\<close>

definition gen_next :: "generator \<Rightarrow> dyndata \<Rightarrow> error + (item option \<times> generator \<times> dyndata)" where
  "gen_next di d =
     (case di of (f, tlist, g) \<Rightarrow>
        (case iter_next f tlist g d of
           Inl e \<Rightarrow> Inl e
         | Inr (it, g', d') \<Rightarrow> Inr (it, (f, tlist, g'), d')))"

text \<open>A \<^verbatim>\<open>for\<close> loop over a generator may not end (no iterator of this file runs forever
  on the empty token list, but that is a property, not part of the definition): the loops
  are partial functions, \<open>None\<close> standing for a loop that does not return.

  \<^verbatim>\<open>_iterflatten\<close>: the join of the chunks.\<close>

partial_function (option) iterflatten_loop ::
    "generator \<Rightarrow> dyndata \<Rightarrow> string \<Rightarrow> (error + string \<times> dyndata) option" where
  "iterflatten_loop di d acc =
     (case gen_next di d of
        Inl e \<Rightarrow> Some (Inl e)
      | Inr r \<Rightarrow>
         (case fst r of
            None \<Rightarrow> Some (Inr (acc, snd (snd r)))
          | Some it \<Rightarrow> iterflatten_loop (fst (snd r)) (snd (snd r)) (acc @ fst it)))"

declare iterflatten_loop.simps [code]

definition emptytokenlist :: tokenlist where
  "emptytokenlist = []"

definition iterflatten :: "iterfunc \<Rightarrow> dyndata \<Rightarrow> nat \<Rightarrow> (error + string \<times> dyndata) option" where
  "iterflatten f d offset = iterflatten_loop (new_generator f (Some offset) emptytokenlist) d []"

text \<open>\<^verbatim>\<open>ensureend\<close>: the location of the error is \<^verbatim>\<open>d.getloc(o)\<close> with the token offset of
  the item, which is \<^verbatim>\<open>None\<close> for an item that has no token. The offset argument may be
  \<^verbatim>\<open>None\<close> (the caller passes what \<^verbatim>\<open>parsemakesyntax\<close> returned).\<close>

partial_function (option) ensureend_loop ::
    "generator \<Rightarrow> dyndata \<Rightarrow> string \<Rightarrow> (error + dyndata) option" where
  "ensureend_loop di d msg =
     (case gen_next di d of
        Inl e \<Rightarrow> Some (Inl e)
      | Inr r \<Rightarrow>
         (case fst r of
            None \<Rightarrow> Some (Inr (snd (snd r)))
          | Some it \<Rightarrow>
             if fst it \<noteq> [] \<and> \<not> str_isspace (fst it) then
               (case getloc_opt (snd (snd r)) (map_option (fst \<circ> snd) (snd it)) of
                  Inl e \<Rightarrow> Some (Inl e)
                | Inr loc \<Rightarrow> Some (Inl (SyntaxError msg loc)))
             else ensureend_loop (fst (snd r)) (snd (snd r)) msg))"

declare ensureend_loop.simps [code]

definition ensureend :: "dyndata \<Rightarrow> nat option \<Rightarrow> string \<Rightarrow> (error + dyndata) option" where
  "ensureend d offset msg =
     ensureend_loop (new_generator Itermakefilechars offset emptytokenlist) d msg"

subsection \<open>Expansions\<close>

text \<open>Modelled from the spec: the classes \<^verbatim>\<open>data.Expansion\<close>, \<^verbatim>\<open>functions.VariableRef\<close>,
  \<^verbatim>\<open>functions.SubstitutionRef\<close> and the function classes of \<^verbatim>\<open>functions.functionmap\<close> are
  not part of parser.py. An Expansion is an ordered sequence of nodes plus a location
  (absent for \<^verbatim>\<open>data.Expansion()\<close>); a node is a literal, a variable reference, a
  substitution reference or a function call with its arguments.\<close>

datatype node =
    Literal string
  | VariableRef location expansion
  | SubstitutionRef location expansion expansion expansion
  | FunctionCall string location "expansion list"
and expansion = Expansion "location option" "node list"

text \<open>Modelled from the spec: \<^verbatim>\<open>append(str)\<close> merges into a trailing Literal when possible.\<close>

fun append_str :: "expansion \<Rightarrow> string \<Rightarrow> expansion" where
  "append_str (Expansion l ns) s =
     (if ns = [] then Expansion l [Literal s]
      else (case last ns of
              Literal t \<Rightarrow> Expansion l (butlast ns @ [Literal (t @ s)])
            | _ \<Rightarrow> Expansion l (ns @ [Literal s])))"

text \<open>\<^verbatim>\<open>append\<close> of a reference or a function call.\<close>

fun append_node :: "expansion \<Rightarrow> node \<Rightarrow> expansion" where
  "append_node (Expansion l ns) n = Expansion l (ns @ [n])"

text \<open>Modelled from the spec: \<^verbatim>\<open>concat\<close> recombines two expansions into one, the nodes of
  the second after those of the first, a literal merging as \<^verbatim>\<open>append\<close> does.\<close>

fun concat_nodes :: "expansion \<Rightarrow> node list \<Rightarrow> expansion" where
  "concat_nodes e [] = e"
| "concat_nodes e (Literal s # ns) = concat_nodes (append_str e s) ns"
| "concat_nodes e (n # ns) = concat_nodes (append_node e n) ns"

fun concat_expansion :: "expansion \<Rightarrow> expansion \<Rightarrow> expansion" where
  "concat_expansion e (Expansion l ns) = concat_nodes e ns"

text \<open>Modelled from the spec: \<^verbatim>\<open>lstrip\<close>/\<^verbatim>\<open>rstrip\<close> trim whitespace from the leading/trailing
  Literal, shrinking or removing it.\<close>

fun exp_lstrip :: "expansion \<Rightarrow> expansion" where
  "exp_lstrip (Expansion l (Literal s # ns)) =
     (if lstrip s = [] then Expansion l ns else Expansion l (Literal (lstrip s) # ns))"
| "exp_lstrip e = e"

fun exp_rstrip :: "expansion \<Rightarrow> expansion" where
  "exp_rstrip (Expansion l ns) =
     (if ns = [] then Expansion l ns
      else (case last ns of
              Literal s \<Rightarrow>
                if rstrip s = [] then Expansion l (butlast ns)
                else Expansion l (butlast ns @ [Literal (rstrip s)])
            | _ \<Rightarrow> Expansion l ns))"

definition expansion_fromstring :: "string \<Rightarrow> expansion" where
  "expansion_fromstring s = Expansion None [Literal s]"

text \<open>The parser knows of a function its name and \<^verbatim>\<open>maxargs\<close>; \<^verbatim>\<open>functions.functionmap\<close> is
  a parameter of the model, as the list of (name, maxargs).\<close>

type_synonym functionmap = "(string \<times> nat) list"

text \<open>\<^verbatim>\<open>_functiontokenlist\<close>: the names, longest first (a stable sort).\<close>

definition functiontokenlist :: "functionmap \<Rightarrow> tokenlist" where
  "functiontokenlist fm = sort_key (\<lambda>t. - int (length t)) (map fst fm)"

subsection \<open>The expansion parser: parsemakesyntax\<close>

text \<open>Expansions are objects that several places refer to and that are appended to in
  place: the frame of a \<^verbatim>\<open>PARSESTATE_PARENMATCH\<close> shares the expansion of the frame below,
  and the expansion of a \<^verbatim>\<open>PARSESTATE_FUNCTION\<close> frame is the last argument of its function
  object. The model keeps them in a store, a list indexed by the reference; a finished
  expansion is read from the store when it becomes part of a node.\<close>

type_synonym store = "expansion list"

definition new_expansion :: "store \<Rightarrow> expansion \<Rightarrow> nat \<times> store" where
  "new_expansion h e = (length h, h @ [e])"

datatype parsestate =
    PARSESTATE_TOPLEVEL
  | PARSESTATE_FUNCTION
  | PARSESTATE_VARNAME
  | PARSESTATE_SUBSTFROM
  | PARSESTATE_SUBSTTO
  | PARSESTATE_PARENMATCH

text \<open>A function object under construction: its arguments are references.\<close>

record fnobject =
  fname :: string
  fnloc :: location
  maxargs :: nat
  fargs :: "nat list"

text \<open>\<^verbatim>\<open>ParseStackFrame\<close>. The keyword attributes (\<^verbatim>\<open>stopon\<close>, \<^verbatim>\<open>function\<close>, \<^verbatim>\<open>loc\<close>) and the
  attributes set later (\<^verbatim>\<open>varname\<close>, \<^verbatim>\<open>substfrom\<close>) are \<open>None\<close> while the frame does not
  have them; reading a missing one raises \<^verbatim>\<open>AttributeError\<close>.\<close>

record frame =
  parsestate :: parsestate
  expansion :: nat
  tokenlist :: tokenlist
  openbrace :: "string option"
  closebrace :: "string option"
  stopon :: "tokenlist option"
  func :: "fnobject option"
  frameloc :: "location option"
  varname :: "nat option"
  substfrom :: "nat option"

definition ParseStackFrame ::
    "parsestate \<Rightarrow> nat \<Rightarrow> tokenlist \<Rightarrow> string option \<Rightarrow> string option \<Rightarrow> frame" where
  "ParseStackFrame ps e tl1 ob cb =
     \<lparr>parsestate = ps, expansion = e, tokenlist = tl1, openbrace = ob, closebrace = cb,
      stopon = None, func = None, frameloc = None, varname = None, substfrom = None\<rparr>"

text \<open>A log record of \<^verbatim>\<open>log.warning\<close>: the location that the message starts with, and the
  rest of the message.\<close>

type_synonym logrecord = "location \<times> string"

text \<open>The local state of \<^verbatim>\<open>parsemakesyntax\<close>: the stack (its top is the last element),
  the current generator \<^verbatim>\<open>di\<close>, the variable \<^verbatim>\<open>offset\<close> (unbound before the first item;
  it is read only after a token was seen), the logical line, the store and the log.\<close>

record pstate =
  p_stack :: "frame list"
  p_di :: generator
  p_offset :: "nat option"
  p_data :: dyndata
  p_store :: store
  p_log :: "logrecord list"

text \<open>How one pass of the \<^verbatim>\<open>while True\<close> loop ends: the loop goes on (with \<^verbatim>\<open>continue\<close>, or
  from the bottom of its body), or it is left with \<^verbatim>\<open>break\<close> or with \<^verbatim>\<open>return\<close>.\<close>

datatype outcome =
    Continue pstate
  | Break pstate
  | Return expansion string nat pstate

text \<open>The bottom of the loop body: \<^verbatim>\<open>di = iterfunc(d, offset, stack[-1].tokenlist)\<close>.\<close>

definition loop_bottom :: "iterfunc \<Rightarrow> pstate \<Rightarrow> nat \<Rightarrow> error + outcome" where
  "loop_bottom iterfunc st offset =
     (if p_stack st = [] then Inl IndexError
      else Inr (Continue (st\<lparr>p_offset := Some offset,
                              p_di := new_generator iterfunc (Some offset)
                                        (tokenlist (last (p_stack st)))\<rparr>)))"

text \<open>\<^verbatim>\<open>stacktop.expansion.append(...)\<close> on the object the frame refers to.\<close>

definition expansion_append_str :: "store \<Rightarrow> nat \<Rightarrow> string \<Rightarrow> store" where
  "expansion_append_str h i s = h[i := append_str (h ! i) s]"

definition expansion_append_node :: "store \<Rightarrow> nat \<Rightarrow> node \<Rightarrow> store" where
  "expansion_append_node h i n = h[i := append_node (h ! i) n]"

definition matchingbrace :: "char \<Rightarrow> string" where
  "matchingbrace c = (if c = CHR ''('' then '')'' else ''}'')"

text \<open>The branch \<^verbatim>\<open>token == '$'\<close>.\<close>

definition dollar_branch ::
    "functionmap \<Rightarrow> iterfunc \<Rightarrow> pstate \<Rightarrow> nat \<Rightarrow> nat \<Rightarrow> error + outcome" where
  "dollar_branch fm iterfunc st tokenoffset offset =
     (let d = p_data st; stacktop = last (p_stack st) in
      if length (data d) = offset then Inr (Break st)
      else if length (data d) < offset then Inl IndexError
      else case getloc d (Some (int tokenoffset)) of
        Inl e \<Rightarrow> Inl e
      | Inr loc1 \<Rightarrow>
         (let c = data d ! offset in
          if c = CHR ''$'' then
            loop_bottom iterfunc
              (st\<lparr>p_store := expansion_append_str (p_store st) (expansion stacktop) ''$''\<rparr>)
              (offset + 1)
          else if c = CHR ''('' \<or> c = CHR ''{'' then
            (let closeb = matchingbrace c;
                 (fname1, offset1) = findtoken d (offset + 1) (functiontokenlist fm) True
             in case fname1 of
                  Some name \<Rightarrow>
                    (case map_of fm name of
                       None \<Rightarrow> Inl KeyError
                     | Some maxargs1 \<Rightarrow>
                        (let (e, h) = new_expansion (p_store st) (Expansion None []);
                             fn = \<lparr>fname = name, fnloc = loc1, maxargs = maxargs1, fargs = [e]\<rparr>;
                             tl1 = (if length (fargs fn) = maxargs fn
                                    then [[c], closeb, ''$'']
                                    else ['','', [c], closeb, ''$'']);
                             fr = (ParseStackFrame PARSESTATE_FUNCTION e tl1 (Some [c]) (Some closeb))
                                    \<lparr>func := Some fn\<rparr>
                         in Inr (Continue (st\<lparr>p_stack := p_stack st @ [fr], p_store := h,
                                               p_offset := Some offset1,
                                               p_di := new_generator iterfunc (Some offset1) tl1\<rparr>))))
                | None \<Rightarrow>
                    (let (e, h) = new_expansion (p_store st) (Expansion None []);
                         tl1 = ['':'', [c], closeb, ''$''];
                         fr = (ParseStackFrame PARSESTATE_VARNAME e tl1 (Some [c]) (Some closeb))
                                \<lparr>frameloc := Some loc1\<rparr>
                     in Inr (Continue (st\<lparr>p_stack := p_stack st @ [fr], p_store := h,
                                           p_offset := Some offset1,
                                           p_di := new_generator iterfunc (Some offset1) tl1\<rparr>))))
          else
            (let e = expansion_fromstring [c] in
             loop_bottom iterfunc
               (st\<lparr>p_store := expansion_append_node (p_store st) (expansion stacktop)
                                    (VariableRef loc1 e)\<rparr>)
               (offset + 1))))"

text \<open>\<^verbatim>\<open>stack.pop()\<close> followed by \<^verbatim>\<open>stack[-1].expansion.append(node)\<close>.\<close>

definition pop_append :: "pstate \<Rightarrow> node \<Rightarrow> error + pstate" where
  "pop_append st n =
     (let stk = butlast (p_stack st) in
      if stk = [] then Inl IndexError
      else Inr (st\<lparr>p_stack := stk,
                    p_store := expansion_append_node (p_store st) (expansion (last stk)) n\<rparr>))"

text \<open>The token list \<^verbatim>\<open>TokenList.get((openbrace, closebrace, '$'))\<close> after the given
  tokens; a brace that is \<^verbatim>\<open>None\<close> cannot be escaped.\<close>

definition brace_tokens :: "frame \<Rightarrow> tokenlist \<Rightarrow> error + tokenlist" where
  "brace_tokens fr pre =
     (case (openbrace fr, closebrace fr) of
        (Some ob, Some cb) \<Rightarrow> Inr (pre @ [ob, cb, ''$''])
      | _ \<Rightarrow> Inl TypeError)"

text \<open>The branch \<^verbatim>\<open>token in ('(', '{')\<close>.\<close>

definition openparen_branch ::
    "iterfunc \<Rightarrow> pstate \<Rightarrow> string \<Rightarrow> nat \<Rightarrow> nat \<Rightarrow> error + outcome" where
  "openparen_branch iterfunc st token tokenoffset offset =
     (let stacktop = last (p_stack st) in
      if Some token \<noteq> openbrace stacktop then Inl AssertionError
      else case closebrace stacktop of
        None \<Rightarrow> Inl TypeError
      | Some cb \<Rightarrow>
         (case getloc (p_data st) (Some (int tokenoffset)) of
            Inl e \<Rightarrow> Inl e
          | Inr loc1 \<Rightarrow>
             (let h = expansion_append_str (p_store st) (expansion stacktop) token;
                  fr = (ParseStackFrame PARSESTATE_PARENMATCH (expansion stacktop) [token, cb]
                          (Some token) (Some cb)) \<lparr>frameloc := Some loc1\<rparr>
              in loop_bottom iterfunc (st\<lparr>p_stack := p_stack st @ [fr], p_store := h\<rparr>) offset)))"

text \<open>The branch \<^verbatim>\<open>stacktop.parsestate == PARSESTATE_PARENMATCH\<close>.\<close>

definition parenmatch_branch :: "iterfunc \<Rightarrow> pstate \<Rightarrow> string \<Rightarrow> nat \<Rightarrow> error + outcome" where
  "parenmatch_branch iterfunc st token offset =
     (let stacktop = last (p_stack st) in
      if Some token \<noteq> closebrace stacktop then Inl AssertionError
      else loop_bottom iterfunc
             (st\<lparr>p_store := expansion_append_str (p_store st) (expansion stacktop) token,
                 p_stack := butlast (p_stack st)\<rparr>)
             offset)"

text \<open>The branch \<^verbatim>\<open>PARSESTATE_FUNCTION\<close>. \<^verbatim>\<open>setup()\<close> belongs to the function classes; the
  model takes it to change nothing the parser reads.\<close>

definition function_branch :: "iterfunc \<Rightarrow> pstate \<Rightarrow> string \<Rightarrow> nat \<Rightarrow> error + outcome" where
  "function_branch iterfunc st token offset =
     (let stacktop = last (p_stack st) in
      case func stacktop of
        None \<Rightarrow> Inl AttributeError
      | Some fn \<Rightarrow>
          if token = '','' then
            (let (e, h) = new_expansion (p_store st) (Expansion None []);
                 fn' = fn\<lparr>fargs := fargs fn @ [e]\<rparr>;
                 stacktop' = stacktop\<lparr>expansion := e, func := Some fn'\<rparr>
             in if length (fargs fn') = maxargs fn' then
                  (case brace_tokens stacktop [] of
                     Inl err \<Rightarrow> Inl err
                   | Inr tl1 \<Rightarrow>
                       loop_bottom iterfunc
                         (st\<lparr>p_stack := butlast (p_stack st) @ [stacktop'\<lparr>tokenlist := tl1\<rparr>],
                             p_store := h\<rparr>)
                         offset)
                else loop_bottom iterfunc
                       (st\<lparr>p_stack := butlast (p_stack st) @ [stacktop'], p_store := h\<rparr>) offset)
          else if token = '')'' \<or> token = ''}'' then
            (case pop_append st
                    (FunctionCall (fname fn) (fnloc fn) (map (\<lambda>i. p_store st ! i) (fargs fn))) of
               Inl err \<Rightarrow> Inl err
             | Inr st' \<Rightarrow> loop_bottom iterfunc st' offset)
          else Inl AssertionError)"

text \<open>The branch \<^verbatim>\<open>PARSESTATE_VARNAME\<close>.\<close>

definition varname_branch :: "iterfunc \<Rightarrow> pstate \<Rightarrow> string \<Rightarrow> nat \<Rightarrow> error + outcome" where
  "varname_branch iterfunc st token offset =
     (let stacktop = last (p_stack st) in
      if token = '':'' then
        (let (e, h) = new_expansion (p_store st) (Expansion None []) in
         case brace_tokens stacktop [''=''] of
           Inl err \<Rightarrow> Inl err
         | Inr tl1 \<Rightarrow>
             loop_bottom iterfunc
               (st\<lparr>p_stack := butlast (p_stack st) @
                      [stacktop\<lparr>varname := Some (expansion stacktop),
                                parsestate := PARSESTATE_SUBSTFROM,
                                expansion := e,
                                tokenlist := tl1\<rparr>],
                   p_store := h\<rparr>)
               offset)
      else if token = '')'' \<or> token = ''}'' then
        (case frameloc stacktop of
           None \<Rightarrow> Inl AttributeError
         | Some loc1 \<Rightarrow>
            (case pop_append st (VariableRef loc1 (p_store st ! expansion stacktop)) of
               Inl err \<Rightarrow> Inl err
             | Inr st' \<Rightarrow> loop_bottom iterfunc st' offset))
      else Inl AssertionError)"

text \<open>The branch \<^verbatim>\<open>PARSESTATE_SUBSTFROM\<close>. A closing brace logs the warning, appends
  \<^verbatim>\<open>':'\<close> and the partial text to the variable name and emits a plain reference.\<close>

definition substfrom_branch :: "iterfunc \<Rightarrow> pstate \<Rightarrow> string \<Rightarrow> nat \<Rightarrow> error + outcome" where
  "substfrom_branch iterfunc st token offset =
     (let stacktop = last (p_stack st) in
      if token = ''='' then
        (let (e, h) = new_expansion (p_store st) (Expansion None []) in
         case brace_tokens stacktop [] of
           Inl err \<Rightarrow> Inl err
         | Inr tl1 \<Rightarrow>
             loop_bottom iterfunc
               (st\<lparr>p_stack := butlast (p_stack st) @
                      [stacktop\<lparr>substfrom := Some (expansion stacktop),
                                parsestate := PARSESTATE_SUBSTTO,
                                expansion := e,
                                tokenlist := tl1\<rparr>],
                   p_store := h\<rparr>)
               offset)
      else if token = '')'' \<or> token = ''}'' then
        (case (frameloc stacktop, varname stacktop) of
           (Some loc1, Some vn) \<Rightarrow>
             (let h1 = expansion_append_str (p_store st) vn '':'';
                  h2 = h1[vn := concat_expansion (h1 ! vn) (h1 ! expansion stacktop)];
                  st1 = st\<lparr>p_log := p_log st @
                              [(loc1, ''Variable reference looks like substitution without ='')],
                            p_store := h2\<rparr>
              in case pop_append st1 (VariableRef loc1 (h2 ! vn)) of
                   Inl err \<Rightarrow> Inl err
                 | Inr st' \<Rightarrow> loop_bottom iterfunc st' offset)
         | _ \<Rightarrow> Inl AttributeError)
      else Inl AssertionError)"

text \<open>The branch \<^verbatim>\<open>PARSESTATE_SUBSTTO\<close>.\<close>

definition substto_branch :: "iterfunc \<Rightarrow> pstate \<Rightarrow> string \<Rightarrow> nat \<Rightarrow> error + outcome" where
  "substto_branch iterfunc st token offset =
     (let stacktop = last (p_stack st) in
      if \<not> (token = '')'' \<or> token = ''}'') then Inl AssertionError
      else case (frameloc stacktop, varname stacktop, substfrom stacktop) of
        (Some loc1, Some vn, Some sf) \<Rightarrow>
          (case pop_append st
                  (SubstitutionRef loc1 (p_store st ! vn) (p_store st ! sf)
                     (p_store st ! expansion stacktop)) of
             Inl err \<Rightarrow> Inl err
           | Inr st' \<Rightarrow> loop_bottom iterfunc st' offset)
      | _ \<Rightarrow> Inl AttributeError)"

text \<open>The dispatch on the token and the state of the stack top, in the order of the
  \<^verbatim>\<open>if\<close>/\<^verbatim>\<open>elif\<close> chain.\<close>

definition token_branch ::
    "functionmap \<Rightarrow> iterfunc \<Rightarrow> pstate \<Rightarrow> string \<Rightarrow> nat \<Rightarrow> nat \<Rightarrow> error + outcome" where
  "token_branch fm iterfunc st token tokenoffset offset =
     (let stacktop = last (p_stack st) in
      if token = ''$'' then dollar_branch fm iterfunc st tokenoffset offset
      else if token = ''('' \<or> token = ''{'' then openparen_branch iterfunc st token tokenoffset offset
      else if parsestate stacktop = PARSESTATE_PARENMATCH then parenmatch_branch iterfunc st token offset
      else if parsestate stacktop = PARSESTATE_TOPLEVEL then
        (if length (p_stack st) = 1
         then Inr (Return (p_store st ! expansion stacktop) token offset st)
         else Inl AssertionError)
      else if parsestate stacktop = PARSESTATE_FUNCTION then function_branch iterfunc st token offset
      else if parsestate stacktop = PARSESTATE_VARNAME then varname_branch iterfunc st token offset
      else if parsestate stacktop = PARSESTATE_SUBSTFROM then substfrom_branch iterfunc st token offset
      else substto_branch iterfunc st token offset)"

text \<open>One pass of the loop body.\<close>

definition parse_iteration :: "functionmap \<Rightarrow> iterfunc \<Rightarrow> pstate \<Rightarrow> error + outcome" where
  "parse_iteration fm iterfunc st =
     (if p_stack st = [] then Inl IndexError
      else case gen_next (p_di st) (p_data st) of
        Inl e \<Rightarrow> Inl e
      | Inr (None, di', d') \<Rightarrow> Inr (Break (st\<lparr>p_di := di', p_data := d'\<rparr>))
      | Inr (Some (s, tok), di', d') \<Rightarrow>
          (let st1 = st\<lparr>p_di := di', p_data := d',
                        p_offset := map_option (snd \<circ> snd) tok,
                        p_store := expansion_append_str (p_store st)
                                     (expansion (last (p_stack st))) s\<rparr>
           in case tok of
                None \<Rightarrow> Inr (Continue st1)
              | Some (token, tokenoffset, offset) \<Rightarrow>
                  token_branch fm iterfunc st1 token tokenoffset offset))"

text \<open>After the loop.\<close>

type_synonym parsed = "expansion \<times> string option \<times> nat option \<times> dyndata \<times> logrecord list"

definition after_loop :: "pstate \<Rightarrow> error + parsed" where
  "after_loop st =
     (if length (p_stack st) \<noteq> 1 then
        (case getloc_opt (p_data st) (p_offset st) of
           Inl e \<Rightarrow> Inl e
         | Inr loc1 \<Rightarrow> Inl (SyntaxError ''Unterminated function call'' loc1))
      else if parsestate (hd (p_stack st)) \<noteq> PARSESTATE_TOPLEVEL then Inl AssertionError
      else Inr (p_store st ! expansion (hd (p_stack st)), None, None, p_data st, p_log st))"

text \<open>The loop. It is a partial function: \<open>None\<close> is a loop that does not end.\<close>

partial_function (option) parse_loop ::
    "functionmap \<Rightarrow> iterfunc \<Rightarrow> pstate \<Rightarrow> (error + parsed) option" where
  "parse_loop fm iterfunc st =
     (case parse_iteration fm iterfunc st of
        Inl e \<Rightarrow> Some (Inl e)
      | Inr (Continue st') \<Rightarrow> parse_loop fm iterfunc st'
      | Inr (Break st') \<Rightarrow> Some (after_loop st')
      | Inr (Return e token offset st') \<Rightarrow>
          Some (Inr (e, Some token, Some offset, p_data st', p_log st')))"

declare parse_loop.simps [code]

text \<open>The state in which the loop starts: one \<^verbatim>\<open>PARSESTATE_TOPLEVEL\<close> frame whose token list
  is \<^verbatim>\<open>stopon + ('$',)\<close> and whose expansion, the first of the store, is empty and carries
  the location of \<^verbatim>\<open>startat\<close>; a generator over that token list.\<close>

definition initial_pstate ::
    "dyndata \<Rightarrow> nat \<Rightarrow> tokenlist \<Rightarrow> iterfunc \<Rightarrow> logrecord list \<Rightarrow> location \<Rightarrow> pstate" where
  "initial_pstate d startat stopon1 iterfunc lg loc1 =
     \<lparr>p_stack = [(ParseStackFrame PARSESTATE_TOPLEVEL 0 (stopon1 @ [''$'']) None None)
                    \<lparr>stopon := Some stopon1\<rparr>],
      p_di = new_generator iterfunc (Some startat) (stopon1 @ [''$'']),
      p_offset = None,
      p_data = d,
      p_store = [Expansion (Some loc1) []],
      p_log = lg\<rparr>"

text \<open>\<^verbatim>\<open>parsemakesyntax(d, startat, stopon, iterfunc)\<close>. The result is the triple of the
  source, with the logical line and the log as the call leaves them.\<close>

definition parsemakesyntax ::
    "functionmap \<Rightarrow> dyndata \<Rightarrow> nat \<Rightarrow> tokenlist \<Rightarrow> iterfunc \<Rightarrow> logrecord list
      \<Rightarrow> (error + parsed) option" where
  "parsemakesyntax fm d startat stopon1 iterfunc lg =
     (case getloc d (Some (int startat)) of
        Inl e \<Rightarrow> Some (Inl e)
      | Inr loc1 \<Rightarrow> parse_loop fm iterfunc (initial_pstate d startat stopon1 iterfunc lg loc1))"

subsection \<open>Results of the functions that loop\<close>

text \<open>A function that runs one of the loops above returns \<open>None\<close> when it does not
  return, \<open>Some (Inl e)\<close> when it raises and \<open>Some (Inr x)\<close> when it returns \<open>x\<close>.
  \<open>bind_result\<close> is sequencing: what follows a call runs only if the call returned.\<close>

definition bind_result :: "(error + 'a) option \<Rightarrow> ('a \<Rightarrow> (error + 'b) option) \<Rightarrow> (error + 'b) option" where
  "bind_result r f = (case r of None \<Rightarrow> None | Some (Inl e) \<Rightarrow> Some (Inl e) | Some (Inr x) \<Rightarrow> f x)"

text \<open>\<^verbatim>\<open>raise SyntaxError(msg, d.getloc(offset))\<close>.\<close>

definition syntax_error :: "string \<Rightarrow> dyndata \<Rightarrow> nat option \<Rightarrow> (error + 'a) option" where
  "syntax_error msg d offset =
     (case getloc_opt d offset of
        Inl e \<Rightarrow> Some (Inl e)
      | Inr loc1 \<Rightarrow> Some (Inl (SyntaxError msg loc1)))"

subsection \<open>Conditions\<close>

text \<open>Modelled from the spec: the condition classes of \<^verbatim>\<open>parserdata\<close> are not part of
  parser.py. \<^verbatim>\<open>EqCondition\<close> and \<^verbatim>\<open>IfdefCondition\<close> carry \<^verbatim>\<open>expected\<close>, true unless
  \<^verbatim>\<open>ifneq\<close>/\<^verbatim>\<open>ifndef\<close> clears it.\<close>

datatype condition =
    EqCondition expansion expansion bool
  | IfdefCondition expansion bool
  | ElseCondition

fun set_expected_False :: "condition \<Rightarrow> condition" where
  "set_expected_False (EqCondition a b x) = EqCondition a b False"
| "set_expected_False (IfdefCondition e x) = IfdefCondition e False"
| "set_expected_False ElseCondition = ElseCondition"

definition eqargstokenlist :: tokenlist where
  "eqargstokenlist = [''('', [CHR 0x27], [CHR 0x22]]"

type_synonym parsedcond = "condition \<times> dyndata \<times> logrecord list"

text \<open>\<^verbatim>\<open>ifeq\<close>. In the quoted form the second \<^verbatim>\<open>parsemakesyntax\<close> is not followed by a test
  of the token it returns: its offset goes to \<^verbatim>\<open>ensureend\<close> as it is, \<^verbatim>\<open>None\<close> included.\<close>

definition ifeq :: "functionmap \<Rightarrow> dyndata \<Rightarrow> nat \<Rightarrow> logrecord list \<Rightarrow> (error + parsedcond) option" where
  "ifeq fm d offset lg =
     (case findtoken d offset eqargstokenlist False of
        (None, offset1) \<Rightarrow> syntax_error ''No arguments after conditional'' d (Some offset1)
      | (Some token, offset1) \<Rightarrow>
          if token = ''('' then
            bind_result (parsemakesyntax fm d offset1 ['',''] Itermakefilechars lg)
              (\<lambda>(arg1, t, offset2, d1, lg1).
                 case (t, offset2) of
                   (None, _) \<Rightarrow> syntax_error ''Expected two arguments in conditional'' d1 offset2
                 | (Some _, None) \<Rightarrow> Some (Inl TypeError)
                 | (Some _, Some o2) \<Rightarrow>
                     bind_result
                       (parsemakesyntax fm d1 (skipwhitespace d1 o2) ['')''] Itermakefilechars lg1)
                       (\<lambda>(arg2, t2, offset3, d2, lg2).
                          case t2 of
                            None \<Rightarrow> syntax_error ''Unexpected text in conditional'' d2 offset3
                          | Some _ \<Rightarrow>
                              bind_result (ensureend d2 offset3 ''Unexpected text after conditional'')
                                (\<lambda>d3. Some (Inr (EqCondition (exp_rstrip arg1) arg2 True, d3, lg2)))))
          else
            bind_result (parsemakesyntax fm d offset1 [token] Itermakefilechars lg)
              (\<lambda>(arg1, t, offset2, d1, lg1).
                 case (t, offset2) of
                   (None, _) \<Rightarrow> syntax_error ''Unexpected text in conditional'' d1 offset2
                 | (Some _, None) \<Rightarrow> Some (Inl TypeError)
                 | (Some _, Some o2) \<Rightarrow>
                     (let offset3 = skipwhitespace d1 o2 in
                      if offset3 = length (data d1) then
                        syntax_error ''Expected two arguments in conditional'' d1 (Some offset3)
                      else if length (data d1) < offset3 then Some (Inl IndexError)
                      else if data d1 ! offset3 \<notin> set [CHR 0x27, CHR 0x22] then
                        syntax_error ''Unexpected text in conditional'' d1 (Some offset3)
                      else
                        bind_result
                          (parsemakesyntax fm d1 (offset3 + 1) [[data d1 ! offset3]]
                             Itermakefilechars lg1)
                          (\<lambda>(arg2, t2, offset4, d2, lg2).
                             bind_result (ensureend d2 offset4 ''Unexpected text after conditional'')
                               (\<lambda>d3. Some (Inr (EqCondition arg1 arg2 True, d3, lg2)))))))"

definition ifneq :: "functionmap \<Rightarrow> dyndata \<Rightarrow> nat \<Rightarrow> logrecord list \<Rightarrow> (error + parsedcond) option" where
  "ifneq fm d offset lg =
     bind_result (ifeq fm d offset lg) (\<lambda>(c, d1, lg1). Some (Inr (set_expected_False c, d1, lg1)))"

definition ifdef :: "functionmap \<Rightarrow> dyndata \<Rightarrow> nat \<Rightarrow> logrecord list \<Rightarrow> (error + parsedcond) option" where
  "ifdef fm d offset lg =
     bind_result (parsemakesyntax fm d offset [] Itermakefilechars lg)
       (\<lambda>(e, t, offset1, d1, lg1). Some (Inr (IfdefCondition (exp_rstrip e) True, d1, lg1)))"

definition ifndef :: "functionmap \<Rightarrow> dyndata \<Rightarrow> nat \<Rightarrow> logrecord list \<Rightarrow> (error + parsedcond) option" where
  "ifndef fm d offset lg =
     bind_result (ifdef fm d offset lg) (\<lambda>(c, d1, lg1). Some (Inr (set_expected_False c, d1, lg1)))"

text \<open>\<^verbatim>\<open>conditionkeywords\<close>, a dictionary from keyword to parser. The order of its keys, which
  is the order of the alternatives in the token lists built from it, is not fixed by the
  source; no keyword is a prefix of another, so the order does not change what matches.\<close>

definition conditiontokens :: tokenlist where
  "conditiontokens = [''ifeq'', ''ifneq'', ''ifdef'', ''ifndef'']"

definition conditionkeywords ::
    "string \<Rightarrow> (functionmap \<Rightarrow> dyndata \<Rightarrow> nat \<Rightarrow> logrecord list \<Rightarrow> (error + parsedcond) option) option" where
  "conditionkeywords kword =
     (if kword = ''ifeq'' then Some ifeq
      else if kword = ''ifneq'' then Some ifneq
      else if kword = ''ifdef'' then Some ifdef
      else if kword = ''ifndef'' then Some ifndef
      else None)"

definition directivestokenlist :: tokenlist where
  "directivestokenlist = conditiontokens @
     [''else'', ''endif'', ''define'', ''endef'', ''override'', ''include'', ''-include'',
      ''vpath'', ''export'', ''unexport'']"

definition conditionkeywordstokenlist :: tokenlist where
  "conditionkeywordstokenlist = conditiontokens"

definition varsettokens :: tokenlist where
  "varsettokens = ['':='', ''+='', ''?='', ''='']"

subsection \<open>Statements\<close>

text \<open>Modelled from the spec: the statement classes of \<^verbatim>\<open>parserdata\<close> are not part of
  parser.py. The fields are the arguments the parser passes to the constructors.
  \<^verbatim>\<open>SetVariable\<close>: name, value, valueloc, token, targetexp, source (\<open>True\<close> for
  \<^verbatim>\<open>data.Variables.SOURCE_OVERRIDE\<close>, \<open>False\<close> when the argument is not given).
  A \<^verbatim>\<open>ConditionBlock\<close> has its location and its arms, each a condition with the statements
  under it.\<close>

datatype statement =
    Command expansion
  | SetVariable expansion string location string "expansion option" bool
  | Include expansion bool
  | VPathDirective expansion
  | ExportDirective expansion bool
  | EmptyDirective expansion
  | Rule expansion expansion bool
  | StaticPatternRule expansion expansion expansion bool
  | ConditionBlock location "(condition \<times> statement list) list"

text \<open>An element of \<^verbatim>\<open>condstack\<close>: the \<^verbatim>\<open>StatementList\<close> at the bottom, or a
  \<^verbatim>\<open>ConditionBlock\<close> that is still open. The source appends a block to the enclosing
  container when the block is opened and fills it through the reference on the stack; the
  model appends the block when \<^verbatim>\<open>endif\<close> closes it. Nothing else is appended to the
  enclosing container in between, and a parse that ends with a block open raises.\<close>

datatype container =
    StatementList "statement list"
  | OpenBlock location "(condition \<times> statement list) list"

text \<open>\<^verbatim>\<open>append\<close> of a container: to the list, or to the last arm of the block.\<close>

fun container_append :: "container \<Rightarrow> statement \<Rightarrow> container" where
  "container_append (StatementList ss) s = StatementList (ss @ [s])"
| "container_append (OpenBlock l arms) s =
     (if arms = [] then OpenBlock l arms
      else OpenBlock l (butlast arms @ [(fst (last arms), snd (last arms) @ [s])]))"

text \<open>Modelled from the spec: \<^verbatim>\<open>addcondition\<close> adds an arm to the block.\<close>

fun addcondition :: "container \<Rightarrow> location \<Rightarrow> condition \<Rightarrow> error + container" where
  "addcondition (OpenBlock l arms) loc1 c = Inr (OpenBlock l (arms @ [(c, [])]))"
| "addcondition (StatementList ss) loc1 c = Inl AttributeError"

text \<open>\<^verbatim>\<open>condstack[-1].append(s)\<close>.\<close>

definition condstack_append :: "container list \<Rightarrow> statement \<Rightarrow> container list" where
  "condstack_append condstack s = butlast condstack @ [container_append (last condstack) s]"

text \<open>\<^verbatim>\<open>iterlines\<close>: the lines of the file object, numbered from 1, CR LF rewritten to LF.\<close>

definition normalize_line :: "string \<Rightarrow> string" where
  "normalize_line ln =
     (if endswith ln [CHR 0x0D, LF] then take (length ln - 2) ln @ [LF] else ln)"

definition iterlines :: "string list \<Rightarrow> (nat \<times> string) list" where
  "iterlines fd = zip [1 ..< Suc (length fd)] (map normalize_line fd)"

text \<open>The state of the loop of \<^verbatim>\<open>parsestream\<close>: \<^verbatim>\<open>currule\<close>, \<^verbatim>\<open>condstack\<close> (the top is the
  last element), what \<^verbatim>\<open>fdlines\<close> will still yield, and the log. \<open>s_opened\<close> and
  \<open>s_closed\<close> are not variables of the source: they count how often the loop has run
  \<^verbatim>\<open>condstack.append(cb)\<close> and \<^verbatim>\<open>condstack.pop()\<close>, so that properties can speak of the
  conditionals and \<^verbatim>\<open>endif\<close>s of the input.\<close>

record sstate =
  s_currule :: bool
  s_condstack :: "container list"
  s_fdlines :: "(nat \<times> string) list"
  s_log :: "logrecord list"
  s_opened :: nat
  s_closed :: nat

text \<open>The end of a statement: the statement is appended to the stack top, the line
  source and the log are as the logical line \<open>d\<close> and the last call left them.\<close>

definition append_statements ::
    "sstate \<Rightarrow> dyndata \<Rightarrow> logrecord list \<Rightarrow> bool \<Rightarrow> statement list \<Rightarrow> sstate" where
  "append_statements st d lg currule1 ss =
     st\<lparr>s_currule := currule1,
        s_condstack := foldl condstack_append (s_condstack st) ss,
        s_fdlines := lineiter d,
        s_log := lg\<rparr>"

text \<open>The value of a variable: \<^verbatim>\<open>_iterflatten(itermakefilechars, d, offset).lstrip()\<close>, and
  the statement built from it, whose \<^verbatim>\<open>valueloc\<close> is \<^verbatim>\<open>d.getloc(offset)\<close>.\<close>

definition setvariable ::
    "dyndata \<Rightarrow> nat \<Rightarrow> expansion \<Rightarrow> string \<Rightarrow> expansion option \<Rightarrow> bool
      \<Rightarrow> (error + statement \<times> dyndata) option" where
  "setvariable d offset vname token targetexp source =
     bind_result (iterflatten Itermakefilechars d offset)
       (\<lambda>(v, d1).
          case getloc d1 (Some (int offset)) of
            Inl e \<Rightarrow> Some (Inl e)
          | Inr valueloc \<Rightarrow>
              Some (Inr (SetVariable vname (lstrip v) valueloc token targetexp source, d1)))"

text \<open>A recipe after \<^verbatim>\<open>;\<close> on the line of a rule.\<close>

definition rule_command ::
    "functionmap \<Rightarrow> dyndata \<Rightarrow> nat \<Rightarrow> logrecord list
      \<Rightarrow> (error + statement \<times> dyndata \<times> logrecord list) option" where
  "rule_command fm d offset lg =
     bind_result (parsemakesyntax fm d (skipwhitespace d offset) [] Itercommandchars lg)
       (\<lambda>(e, t, offset1, d1, lg1). Some (Inr (Command e, d1, lg1)))"

text \<open>The statement of a line that starts with no directive: a variable, a rule, a static
  pattern rule or a target-specific variable.\<close>

definition rule_or_variable ::
    "functionmap \<Rightarrow> sstate \<Rightarrow> dyndata \<Rightarrow> nat \<Rightarrow> (error + sstate) option" where
  "rule_or_variable fm st d offset =
     bind_result
       (parsemakesyntax fm d offset (varsettokens @ [''::'', '':'']) Itermakefilechars (s_log st))
       (\<lambda>(e, token1, offset1, d1, lg1).
          case (token1, offset1) of
            (None, _) \<Rightarrow>
              Some (Inr (append_statements st d1 lg1 (s_currule st) [EmptyDirective e]))
          | (Some _, None) \<Rightarrow> Some (Inl TypeError)
          | (Some token, Some o1) \<Rightarrow>
              if token \<in> set varsettokens then
                bind_result (setvariable d1 o1 (exp_rstrip (exp_lstrip e)) token None False)
                  (\<lambda>(s, d2). Some (Inr (append_statements st d2 lg1 False [s])))
              else
                bind_result
                  (parsemakesyntax fm d1 o1 (varsettokens @ ['':'', ''|'', '';''])
                     Itermakefilechars lg1)
                  (\<lambda>(e2, token2, offset2, d2, lg2).
                     case (token2, offset2) of
                       (None, _) \<Rightarrow>
                         Some (Inr (append_statements st d2 lg2 True [Rule e e2 (token = ''::'')]))
                     | (Some _, None) \<Rightarrow> Some (Inl TypeError)
                     | (Some tok2, Some o2) \<Rightarrow>
                         if tok2 = '';'' then
                           bind_result (rule_command fm d2 o2 lg2)
                             (\<lambda>(c, d3, lg3).
                                Some (Inr (append_statements st d3 lg3 True
                                             [Rule e e2 (token = ''::''), c])))
                         else if tok2 \<in> set varsettokens then
                           bind_result
                             (setvariable d2 o2 (exp_rstrip (exp_lstrip e2)) tok2 (Some e) False)
                             (\<lambda>(s, d3). Some (Inr (append_statements st d3 lg2 False [s])))
                         else if tok2 = ''|'' then
                           syntax_error ''order-only prerequisites not implemented'' d2 (Some o2)
                         else if tok2 \<noteq> '':'' then Some (Inl AssertionError)
                         else
                           bind_result (parsemakesyntax fm d2 o2 ['';''] Itermakefilechars lg2)
                             (\<lambda>(deps, token3, offset3, d3, lg3).
                                case (token3, offset3) of
                                  (Some tok3, Some o3) \<Rightarrow>
                                    if tok3 = '';'' then
                                      bind_result (rule_command fm d3 o3 lg3)
                                        (\<lambda>(c, d4, lg4).
                                           Some (Inr (append_statements st d4 lg4 True
                                                  [StaticPatternRule e e2 deps (token = ''::''), c])))
                                    else
                                      Some (Inr (append_statements st d3 lg3 True
                                                  [StaticPatternRule e e2 deps (token = ''::'')]))
                                | _ \<Rightarrow>
                                    Some (Inr (append_statements st d3 lg3 True
                                                [StaticPatternRule e e2 deps (token = ''::'')])))))"

text \<open>The branch \<^verbatim>\<open>kword == 'endif'\<close>.\<close>

definition endif_directive :: "sstate \<Rightarrow> dyndata \<Rightarrow> nat \<Rightarrow> (error + sstate) option" where
  "endif_directive st d offset =
     bind_result (ensureend d (Some offset) ''Unexpected data after 'endif' directive'')
       (\<lambda>d1.
          if length (s_condstack st) = 1 then
            syntax_error ''unmatched 'endif' directive'' d1 (Some offset)
          else
            (case last (s_condstack st) of
               OpenBlock l arms \<Rightarrow>
                 Some (Inr (st\<lparr>s_condstack :=
                                 condstack_append (butlast (s_condstack st)) (ConditionBlock l arms),
                               s_fdlines := lineiter d1,
                               s_closed := Suc (s_closed st)\<rparr>))
             | StatementList ss \<Rightarrow>
                 Some (Inr (st\<lparr>s_condstack := butlast (s_condstack st),
                               s_fdlines := lineiter d1,
                               s_closed := Suc (s_closed st)\<rparr>))))"

text \<open>The branch \<^verbatim>\<open>kword == 'else'\<close>.\<close>

definition else_directive ::
    "functionmap \<Rightarrow> sstate \<Rightarrow> dyndata \<Rightarrow> nat \<Rightarrow> (error + sstate) option" where
  "else_directive fm st d offset =
     (if length (s_condstack st) = 1 then
        syntax_error ''unmatched 'else' directive'' d (Some offset)
      else
        (case findtoken d offset conditionkeywordstokenlist True of
           (None, offset1) \<Rightarrow>
             bind_result (ensureend d (Some offset1) ''Unexpected data after 'else' directive.'')
               (\<lambda>d1.
                  case getloc d1 (Some (int offset1)) of
                    Inl e \<Rightarrow> Some (Inl e)
                  | Inr loc1 \<Rightarrow>
                     (case addcondition (last (s_condstack st)) loc1 ElseCondition of
                        Inl e \<Rightarrow> Some (Inl e)
                      | Inr newtop \<Rightarrow>
                          Some (Inr (st\<lparr>s_condstack := butlast (s_condstack st) @ [newtop],
                                        s_fdlines := lineiter d1\<rparr>))))
         | (Some kword, offset1) \<Rightarrow>
             (case conditionkeywords kword of
                None \<Rightarrow> syntax_error ''Unexpected condition after 'else' directive.'' d (Some offset1)
              | Some parser \<Rightarrow>
                  bind_result (parser fm d offset1 (s_log st))
                    (\<lambda>(c, d1, lg1).
                       case getloc d1 (Some (int offset1)) of
                         Inl e \<Rightarrow> Some (Inl e)
                       | Inr loc1 \<Rightarrow>
                          (case addcondition (last (s_condstack st)) loc1 c of
                             Inl e \<Rightarrow> Some (Inl e)
                           | Inr newtop \<Rightarrow>
                               Some (Inr (st\<lparr>s_condstack := butlast (s_condstack st) @ [newtop],
                                             s_fdlines := lineiter d1,
                                             s_log := lg1\<rparr>)))))))"

text \<open>The branch \<^verbatim>\<open>kword in conditionkeywords\<close>: a new block is opened.\<close>

definition if_directive ::
    "functionmap \<Rightarrow> sstate \<Rightarrow> dyndata \<Rightarrow> nat \<Rightarrow> string \<Rightarrow> (error + sstate) option" where
  "if_directive fm st d offset kword =
     (case conditionkeywords kword of
        None \<Rightarrow> Some (Inl KeyError)
      | Some parser \<Rightarrow>
          bind_result (parser fm d offset (s_log st))
            (\<lambda>(c, d1, lg1).
               case getloc d1 (Some 0) of
                 Inl e \<Rightarrow> Some (Inl e)
               | Inr loc1 \<Rightarrow>
                   Some (Inr (st\<lparr>s_condstack := s_condstack st @ [OpenBlock loc1 [(c, [])]],
                                 s_fdlines := lineiter d1,
                                 s_log := lg1,
                                 s_opened := Suc (s_opened st)\<rparr>))))"

text \<open>The branch \<^verbatim>\<open>kword == 'define'\<close>: the name is the rest of the line; the body is read
  from a fresh logical line over the same line source (the result of its first
  \<^verbatim>\<open>readline\<close> is not tested).\<close>

definition define_directive ::
    "functionmap \<Rightarrow> sstate \<Rightarrow> dyndata \<Rightarrow> nat \<Rightarrow> (error + sstate) option" where
  "define_directive fm st d offset =
     bind_result (parsemakesyntax fm d offset [] Itermakefilechars (s_log st))
       (\<lambda>(vname, t, i, d1, lg1).
          (let d2 = snd (readline (DynamicData (lineiter d1) (dpath d1))) in
           bind_result (iterflatten Iterdefinechars d2 0)
             (\<lambda>(v, d3).
                case getloc d3 (Some 0) of
                  Inl e \<Rightarrow> Some (Inl e)
                | Inr valueloc \<Rightarrow>
                    Some (Inr (append_statements st d3 lg1 False
                                 [SetVariable vname v valueloc ''='' None False])))))"

text \<open>The directives that take the rest of the line as one expansion.\<close>

definition include_directive ::
    "functionmap \<Rightarrow> sstate \<Rightarrow> dyndata \<Rightarrow> nat \<Rightarrow> string \<Rightarrow> (error + sstate) option" where
  "include_directive fm st d offset kword =
     bind_result (parsemakesyntax fm d offset [] Itermakefilechars (s_log st))
       (\<lambda>(incfile, t, offset1, d1, lg1).
          Some (Inr (append_statements st d1 lg1 False [Include incfile (kword = ''include'')])))"

definition vpath_directive ::
    "functionmap \<Rightarrow> sstate \<Rightarrow> dyndata \<Rightarrow> nat \<Rightarrow> (error + sstate) option" where
  "vpath_directive fm st d offset =
     bind_result (parsemakesyntax fm d offset [] Itermakefilechars (s_log st))
       (\<lambda>(e, t, offset1, d1, lg1).
          Some (Inr (append_statements st d1 lg1 False [VPathDirective e])))"

definition override_directive ::
    "functionmap \<Rightarrow> sstate \<Rightarrow> dyndata \<Rightarrow> nat \<Rightarrow> (error + sstate) option" where
  "override_directive fm st d offset =
     bind_result (parsemakesyntax fm d offset varsettokens Itermakefilechars (s_log st))
       (\<lambda>(vname, token1, offset1, d1, lg1).
          case (token1, offset1) of
            (None, _) \<Rightarrow> syntax_error ''Malformed override directive, need ='' d1 offset1
          | (Some _, None) \<Rightarrow> Some (Inl TypeError)
          | (Some token, Some o1) \<Rightarrow>
              bind_result (setvariable d1 o1 (exp_rstrip (exp_lstrip vname)) token None True)
                (\<lambda>(s, d2). Some (Inr (append_statements st d2 lg1 False [s]))))"

definition export_directive ::
    "functionmap \<Rightarrow> sstate \<Rightarrow> dyndata \<Rightarrow> nat \<Rightarrow> (error + sstate) option" where
  "export_directive fm st d offset =
     bind_result (parsemakesyntax fm d offset varsettokens Itermakefilechars (s_log st))
       (\<lambda>(e, token1, offset1, d1, lg1).
          case (token1, offset1) of
            (None, _) \<Rightarrow>
              Some (Inr (append_statements st d1 lg1 False
                           [ExportDirective (exp_rstrip (exp_lstrip e)) False]))
          | (Some _, None) \<Rightarrow> Some (Inl TypeError)
          | (Some token, Some o1) \<Rightarrow>
              bind_result (setvariable d1 o1 (exp_rstrip (exp_lstrip e)) token None False)
                (\<lambda>(s, d2).
                   Some (Inr (append_statements st d2 lg1 False
                                [ExportDirective (exp_rstrip (exp_lstrip e)) True, s]))))"

text \<open>One pass of the loop of \<^verbatim>\<open>parsestream\<close> on the logical line \<open>d\<close>, whose first
  physical line has been read.\<close>

definition parse_statement ::
    "functionmap \<Rightarrow> sstate \<Rightarrow> dyndata \<Rightarrow> (error + sstate) option" where
  "parse_statement fm st d =
     (if length (data d) > 0 \<and> data d ! 0 = TAB \<and> s_currule st then
        bind_result (parsemakesyntax fm d 1 [] Itercommandchars (s_log st))
          (\<lambda>(e, t, o1, d1, lg1).
             if t \<noteq> None then Some (Inl AssertionError)
             else Some (Inr (append_statements st d1 lg1 (s_currule st) [Command e])))
      else
        (case findtoken d (skipwhitespace d 0) directivestokenlist True of
           (None, offset) \<Rightarrow> rule_or_variable fm st d offset
         | (Some kword, offset) \<Rightarrow>
             if kword = ''endif'' then endif_directive st d offset
             else if kword = ''else'' then else_directive fm st d offset
             else if conditionkeywords kword \<noteq> None then if_directive fm st d offset kword
             else if kword = ''endef'' then syntax_error ''Unmatched endef'' d (Some offset)
             else if kword = ''define'' then define_directive fm st d offset
             else if kword = ''include'' \<or> kword = ''-include'' then
               include_directive fm st d offset kword
             else if kword = ''vpath'' then vpath_directive fm st d offset
             else if kword = ''override'' then override_directive fm st d offset
             else if kword = ''export'' then export_directive fm st d offset
             else if kword = ''unexport'' then
               syntax_error ''unexporting variables is not supported'' d (Some offset)
             else Some (Inl AssertionError)))"

text \<open>The loop of \<^verbatim>\<open>parsestream\<close> and what follows it. The result is \<^verbatim>\<open>condstack[0]\<close>,
  with the log and the two counters.\<close>

type_synonym parsedstream = "container \<times> logrecord list \<times> nat \<times> nat"

definition after_stream :: "sstate \<Rightarrow> error + parsedstream" where
  "after_stream st =
     (if length (s_condstack st) \<noteq> 1 then
        (case last (s_condstack st) of
           OpenBlock l arms \<Rightarrow> Inl (SyntaxError ''Condition never terminated with endif'' l)
         | StatementList ss \<Rightarrow> Inl AttributeError)
      else Inr (hd (s_condstack st), s_log st, s_opened st, s_closed st))"

partial_function (option) parsestream_loop ::
    "functionmap \<Rightarrow> string \<Rightarrow> sstate \<Rightarrow> (error + parsedstream) option" where
  "parsestream_loop fm filename st =
     (if \<not> length (s_condstack st) > 0 then Some (Inl AssertionError)
      else if \<not> fst (readline (DynamicData (s_fdlines st) filename)) then Some (after_stream st)
      else
        (case parse_statement fm st (snd (readline (DynamicData (s_fdlines st) filename))) of
           None \<Rightarrow> None
         | Some (Inl e) \<Rightarrow> Some (Inl e)
         | Some (Inr st') \<Rightarrow> parsestream_loop fm filename st'))"

declare parsestream_loop.simps [code]

definition parsestream_state :: "string list \<Rightarrow> sstate" where
  "parsestream_state fd =
     \<lparr>s_currule = False, s_condstack = [StatementList []], s_fdlines = iterlines fd,
      s_log = [], s_opened = 0, s_closed = 0\<rparr>"

text \<open>\<^verbatim>\<open>parsestream(fd, filename)\<close>: \<open>fd\<close> is the sequence of lines the file object yields.\<close>

definition parsestream :: "functionmap \<Rightarrow> string list \<Rightarrow> string \<Rightarrow> (error + container) option" where
  "parsestream fm fd filename =
     bind_result (parsestream_loop fm filename (parsestream_state fd))
       (\<lambda>(c, lg, opened, closed). Some (Inr c))"

section \<open>Invariants and runs\<close>

text \<open>A logical line that has read a physical line has an anchor at offset 0.\<close>

definition anchored :: "dyndata \<Rightarrow> bool" where
  "anchored d \<longleftrightarrow> locs d \<noteq> [] \<and> fst (hd (locs d)) = 0"

text \<open>The counters of \<^verbatim>\<open>parsestream\<close> and the depth of its stack move together.\<close>

definition balance :: "sstate \<Rightarrow> sstate \<Rightarrow> bool" where
  "balance st st' \<longleftrightarrow>
     s_condstack st' \<noteq> [] \<and>
     s_opened st' + s_closed st + length (s_condstack st)
       = s_opened st + s_closed st' + length (s_condstack st')"

definition keeps :: "sstate \<Rightarrow> (error + sstate) option \<Rightarrow> bool" where
  "keeps st r \<longleftrightarrow> (case r of Some (Inr st') \<Rightarrow> balance st st' | _ \<Rightarrow> True)"

text \<open>The state that a pass of the loop of \<^verbatim>\<open>parsemakesyntax\<close> ends in.\<close>

fun state_of :: "outcome \<Rightarrow> pstate" where
  "state_of (Continue st) = st"
| "state_of (Break st) = st"
| "state_of (Return e t n st) = st"

text \<open>The state of \<^verbatim>\<open>parsemakesyntax\<close> after \<open>n\<close> passes of its loop, none of which left the
  loop or raised.\<close>

fun iterations :: "functionmap \<Rightarrow> iterfunc \<Rightarrow> nat \<Rightarrow> pstate \<Rightarrow> pstate option" where
  "iterations fm iterfunc 0 st = Some st"
| "iterations fm iterfunc (Suc n) st =
     (case parse_iteration fm iterfunc st of
        Inr (Continue st') \<Rightarrow> iterations fm iterfunc n st'
      | _ \<Rightarrow> None)"

section \<open>Properties\<close>

subsection \<open>Locations of offsets\<close>

text \<open>
  Claim C7 (the part the code does not meet): \<^verbatim>\<open>getloc\<close> is to be defined for every
  logical line including an empty one, where it is to give the start-of-file location.
  On a logical line that holds no physical line (\<^verbatim>\<open>_locs\<close> is empty) \<^verbatim>\<open>findlast\<close> returns
  its unbound loop variable, so \<^verbatim>\<open>getloc\<close> raises \<^verbatim>\<open>UnboundLocalError\<close> at every offset.
  \<^verbatim>\<open>parsestream\<close> reaches this on a file that ends right after a \<^verbatim>\<open>define\<close> line: the
  body iterator finds the fresh logical line empty and asks for the location of offset 0 to
  report the unterminated define.
\<close>

theorem getloc_empty_unbound:
  "getloc (DynamicData li p) offset = Inl UnboundLocalError
   \<and> parsestream fm [''define FOO\<newline>''] ''Makefile'' = Some (Inl UnboundLocalError)"
proof
  show "getloc (DynamicData li p) offset = Inl UnboundLocalError"
    by (simp add: getloc_def DynamicData_def findlast_def Let_def)
  show "parsestream fm [''define FOO\<newline>''] ''Makefile'' = Some (Inl UnboundLocalError)"
    by code_simp
qed



subsection \<open>Conditionals in the quoted form\<close>

text \<open>
  Claim C8 (the part the code does not meet): in the quoted form of \<^verbatim>\<open>ifeq\<close>/\<^verbatim>\<open>ifneq\<close> a second
  argument that is missing its closing quote is to be reported as a \<^verbatim>\<open>SyntaxError\<close>.
  On the line \<^verbatim>\<open>ifeq 'a' 'b\<close> the second \<^verbatim>\<open>parsemakesyntax\<close> consumes the line and returns
  the token and the offset \<^verbatim>\<open>None\<close>; the offset goes to \<^verbatim>\<open>ensureend\<close> untested, and the
  iterator's search at position \<^verbatim>\<open>None\<close> raises \<^verbatim>\<open>TypeError\<close>.
\<close>

theorem ifeq_quoted_unclosed_TypeError:
  "ifeq fm (snd (readline (DynamicData
        [(1, ''ifeq '' @ [CHR 0x27] @ ''a'' @ [CHR 0x27] @ '' '' @ [CHR 0x27] @ ''b\<newline>'')]
        ''Makefile''))) 5 []
     = Some (Inl TypeError)
   \<and> parsestream fm
        [''ifeq '' @ [CHR 0x27] @ ''a'' @ [CHR 0x27] @ '' '' @ [CHR 0x27] @ ''b\<newline>'']
        ''Makefile''
     = Some (Inl TypeError)"
  by code_simp

subsection \<open>The empty token list\<close>






lemma yield_token_empty:
  "startswith token [BS] \<Longrightarrow> snd (yield_token [] d offset token start end1) = None"
  by (simp add: yield_token_def)
















subsection \<open>Continuations\<close>

lemma re_scan_skip:
  assumes "\<And>c s. P c \<Longrightarrow> m (c # s) = None" "list_all P x"
  shows "re_scan m (x @ r) pos = re_scan m r (pos + length x)"
  using assms(2)
proof (induction x arbitrary: pos)
  case Nil
  show ?case by simp
next
  case (Cons c cs)
  then have "P c" "list_all P cs" by simp_all
  from assms(1) [OF \<open>P c\<close>] Cons.IH [OF \<open>list_all P cs\<close>, of "Suc pos"]
  show ?case by simp
qed

lemma re_search_skip:
  assumes "\<And>c s. P c \<Longrightarrow> m (c # s) = None" "list_all P x"
  shows "re_search m (pre @ x @ r) (length pre) = re_scan m r (length pre + length x)"
  using re_scan_skip [of P m x r "length pre", OF assms] by (simp add: re_search_def)

lemma makefilere_plain:
  "c \<noteq> BS \<and> c \<noteq> CHR ''#'' \<and> c \<noteq> LF \<Longrightarrow> makefilere [] (c # s) = None"
  by (simp add: makefilere_def literals_def makefiletokens_def startswith_def awful_def bsany_def
      split: list.splits)

lemma continuationre_plain:
  "c \<noteq> BS \<and> c \<noteq> LF \<Longrightarrow> continuationre [] (c # s) = None"
  by (simp add: continuationre_def literals_def continuationtokens_def startswith_def bsany_def
      split: list.splits)

lemma makefilere_BSLF: "makefilere [] (BS # LF # s) = Some [BS, LF]"
  by (simp add: makefilere_def literals_def makefiletokens_def startswith_def)

lemma makefilere_LF: "makefilere [] (LF # s) = Some [LF]"
  by (simp add: makefilere_def literals_def makefiletokens_def startswith_def awful_def bsany_def
      split: list.splits)

lemma continuationre_BSLF: "continuationre [] (BS # LF # s) = Some [BS, LF]"
  by (simp add: continuationre_def literals_def continuationtokens_def startswith_def)

lemma continuationre_LF: "continuationre [] (LF # s) = Some [LF]"
  by (simp add: continuationre_def literals_def continuationtokens_def startswith_def bsany_def
      split: list.splits)

lemma slice_append: "slice (pre @ x @ r) (length pre) (length pre + length x) = x"
  by (simp add: slice_def)

lemma slice_0: "slice (x @ r) 0 (length x) = x"
  by (simp add: slice_def)

lemma takeWhile_all: "list_all P w \<Longrightarrow> r = [] \<or> \<not> P (hd r) \<Longrightarrow> takeWhile P (w @ r) = w"
  by (induction w) (cases r, auto)

lemma skipwhitespace_run:
  assumes "data d = pre @ w @ r" "list_all isspace w" "r = [] \<or> \<not> isspace (hd r)"
  shows "skipwhitespace d (length pre) = length pre + length w"
  using assms by (simp add: skipwhitespace_def takeWhile_all)

lemma readline_Cons:
  "lineiter d = (n, l) # rest \<Longrightarrow>
   data (snd (readline d)) = data d @ l \<and> lineiter (snd (readline d)) = rest"
  by (simp add: readline_def append_data_def)

lemma isspace_LF: "isspace LF"
  by (simp add: isspace_def)

text \<open>One continuation in the makefile regime: the two items, and their join.\<close>

lemma makefile_cont_step1:
  assumes x: "list_all (\<lambda>c. c \<noteq> BS \<and> c \<noteq> CHR ''#'' \<and> c \<noteq> LF) x" and d: "data d = x @ [BS, LF]"
  shows "itermakefilechars_loop [] d 0 = Inr (Some ((rstrip x @ '' '', None), GCont (length x + 2)))"
proof -
  have "re_search (makefilere []) ([] @ x @ [BS, LF]) (length ([] :: string))
      = re_scan (makefilere []) [BS, LF] (length ([] :: string) + length x)"
    by (rule re_search_skip [where P = "\<lambda>c. c \<noteq> BS \<and> c \<noteq> CHR ''#'' \<and> c \<noteq> LF"])
       (simp_all add: makefilere_plain x)
  then have s: "re_search (makefilere []) (x @ [BS, LF]) 0 = Some ([BS, LF], length x, length x + 2)"
    by (simp add: makefilere_BSLF)
  show ?thesis
    using s slice_0 [of x "[BS, LF]"] by (simp add: itermakefilechars_loop_def d)
qed

lemma makefile_cont_step2:
  assumes y: "list_all (\<lambda>c. c \<noteq> BS \<and> c \<noteq> CHR ''#'' \<and> c \<noteq> LF) y"
    and w: "list_all isspace w" and hy: "y = [] \<or> \<not> isspace (hd y)"
    and d: "data d' = p @ w @ y @ [LF]"
  shows "suspend (itermakefilechars_loop [] d' (skipwhitespace d' (length p))) d'
     = (if y = [] then Inr (None, GReturn, d') else Inr (Some (y, None), GReturn, d'))"
proof (cases "y = []")
  case True
  have "skipwhitespace d' (length p) = length p + length (w @ [LF])"
    by (rule skipwhitespace_run [where r = "[]"]) (simp_all add: d True w isspace_LF)
  then show ?thesis
    by (simp add: True itermakefilechars_loop_def d suspend_def)
next
  case False
  with hy have "y @ [LF] = [] \<or> \<not> isspace (hd (y @ [LF]))" by simp
  with d w have sk: "skipwhitespace d' (length p) = length p + length w"
    by (intro skipwhitespace_run [where r = "y @ [LF]"]) simp_all
  have "re_search (makefilere []) ((p @ w) @ y @ [LF]) (length (p @ w))
      = re_scan (makefilere []) [LF] (length (p @ w) + length y)"
    by (rule re_search_skip [where P = "\<lambda>c. c \<noteq> BS \<and> c \<noteq> CHR ''#'' \<and> c \<noteq> LF"])
       (simp_all add: makefilere_plain y)
  then have s: "re_search (makefilere []) (p @ w @ y @ [LF]) (length p + length w)
      = Some ([LF], length p + length w + length y, length p + length w + length y + 1)"
    by (simp add: makefilere_LF)
  have sl: "slice (p @ w @ y @ [LF]) (length p + length w) (length p + length w + length y) = y"
    using slice_append [of "p @ w" y "[LF]"] by simp
  from False s sl show ?thesis
    by (simp add: itermakefilechars_loop_def sk d suspend_def)
qed

lemma makefile_continuation_flatten:
  assumes x: "list_all (\<lambda>c. c \<noteq> BS \<and> c \<noteq> CHR ''#'' \<and> c \<noteq> LF) x"
    and w: "list_all isspace w"
    and y: "list_all (\<lambda>c. c \<noteq> BS \<and> c \<noteq> CHR ''#'' \<and> c \<noteq> LF) y"
    and hy: "y = [] \<or> \<not> isspace (hd y)"
    and d: "data d = x @ [BS, LF]" and li: "lineiter d = (n, w @ y @ [LF]) # rest"
  shows "iterflatten Itermakefilechars d 0 = Some (Inr (rstrip x @ '' '' @ y, snd (readline d)))"
proof -
  let ?d' = "snd (readline d)"
  from readline_Cons [OF li] d have d': "data ?d' = (x @ [BS, LF]) @ w @ y @ [LF]" by simp
  have n1: "gen_next (Itermakefilechars, [], GStart (Some 0)) d
      = Inr (Some (rstrip x @ '' '', None), (Itermakefilechars, [], GCont (length x + 2)), d)"
    by (simp add: gen_next_def iter_next_def itermakefilechars_next_def
        makefile_cont_step1 [OF x d] suspend_def)
  have n2: "gen_next (Itermakefilechars, [], GCont (length x + 2)) d
      = (if y = [] then Inr (None, (Itermakefilechars, [], GReturn), ?d')
         else Inr (Some (y, None), (Itermakefilechars, [], GReturn), ?d'))"
    using makefile_cont_step2 [OF y w hy d']
    by (simp add: gen_next_def iter_next_def itermakefilechars_next_def Let_def)
  have n3: "gen_next (Itermakefilechars, [], GReturn) ?d'
      = Inr (None, (Itermakefilechars, [], GReturn), ?d')"
    by (simp add: gen_next_def iter_next_def itermakefilechars_next_def)
  have l3: "\<And>acc. iterflatten_loop (Itermakefilechars, [], GReturn) ?d' acc = Some (Inr (acc, ?d'))"
    using n3 by (subst iterflatten_loop.simps) simp
  have l2: "\<And>acc. iterflatten_loop (Itermakefilechars, [], GCont (length x + 2)) d acc
      = Some (Inr (acc @ y, ?d'))"
    using n2 l3 by (subst iterflatten_loop.simps) simp
  show ?thesis
    unfolding iterflatten_def new_generator_def emptytokenlist_def
    using n1 l2 by (subst iterflatten_loop.simps) simp
qed

text \<open>One continuation in the command regime.\<close>

lemma command_cont_step1:
  assumes x: "list_all (\<lambda>c. c \<noteq> BS \<and> c \<noteq> LF) x" and d: "data d = x @ [BS, LF]"
  shows "itercommandchars_loop [] d 0 = Inr (Some ((x @ [BS, LF], None), GCont (length x + 2)))"
proof -
  have "re_search (continuationre []) ([] @ x @ [BS, LF]) (length ([] :: string))
      = re_scan (continuationre []) [BS, LF] (length ([] :: string) + length x)"
    by (rule re_search_skip [where P = "\<lambda>c. c \<noteq> BS \<and> c \<noteq> LF"])
       (simp_all add: continuationre_plain x)
  then have s: "re_search (continuationre []) (x @ [BS, LF]) 0 = Some ([BS, LF], length x, length x + 2)"
    by (simp add: continuationre_BSLF)
  show ?thesis
    using s by (simp add: itercommandchars_loop_def d slice_def)
qed

lemma command_cont_step2:
  assumes y: "list_all (\<lambda>c. c \<noteq> BS \<and> c \<noteq> LF) y"
    and d: "data d' = p @ y @ [LF]"
  shows "itercommandchars_loop [] d' (length p) = Inr (Some ((y, None), GReturn))"
proof -
  have "re_search (continuationre []) (p @ y @ [LF]) (length p)
      = re_scan (continuationre []) [LF] (length p + length y)"
    by (rule re_search_skip [where P = "\<lambda>c. c \<noteq> BS \<and> c \<noteq> LF"])
       (simp_all add: continuationre_plain y)
  then have s: "re_search (continuationre []) (p @ y @ [LF]) (length p)
      = Some ([LF], length p + length y, length p + length y + 1)"
    by (simp add: continuationre_LF)
  have sl: "slice (p @ y @ [LF]) (length p) (length p + length y) = y"
    using slice_append [of p y "[LF]"] by simp
  show ?thesis
    using s sl by (simp add: itercommandchars_loop_def d)
qed

lemma command_continuation_flatten:
  assumes x: "list_all (\<lambda>c. c \<noteq> BS \<and> c \<noteq> LF) x"
    and y: "list_all (\<lambda>c. c \<noteq> BS \<and> c \<noteq> LF) y"
    and pre: "pre = [TAB] \<or> (pre = [] \<and> (y = [] \<or> hd y \<noteq> TAB))"
    and d: "data d = x @ [BS, LF]" and li: "lineiter d = (n, pre @ y @ [LF]) # rest"
  shows "iterflatten Itercommandchars d 0 = Some (Inr (x @ [BS, LF] @ y, snd (readline d)))"
proof -
  let ?d' = "snd (readline d)"
  let ?e = "length x + 2"
  from readline_Cons [OF li] d have d': "data ?d' = ((x @ [BS, LF]) @ pre) @ y @ [LF]" by simp
  have n1: "gen_next (Itercommandchars, [], GStart (Some 0)) d
      = Inr (Some (x @ [BS, LF], None), (Itercommandchars, [], GCont ?e), d)"
    by (simp add: gen_next_def iter_next_def itercommandchars_next_def
        command_cont_step1 [OF x d] suspend_def)
  have off: "(if ?e < length (data ?d') \<and> data ?d' ! ?e = TAB then ?e + 1 else ?e)
      = length ((x @ [BS, LF]) @ pre)"
    using pre by (auto simp: d' nth_append neq_Nil_conv)
  have n2: "gen_next (Itercommandchars, [], GCont ?e) d
      = Inr (Some (y, None), (Itercommandchars, [], GReturn), ?d')"
    unfolding gen_next_def iter_next_def itercommandchars_next_def Let_def
    by (simp only: off gstate.case iterfunc.case prod.case
          command_cont_step2 [OF y d'] suspend_def sum.case option.case)
  have n3: "gen_next (Itercommandchars, [], GReturn) ?d'
      = Inr (None, (Itercommandchars, [], GReturn), ?d')"
    by (simp add: gen_next_def iter_next_def itercommandchars_next_def)
  have l3: "\<And>acc. iterflatten_loop (Itercommandchars, [], GReturn) ?d' acc = Some (Inr (acc, ?d'))"
    using n3 by (subst iterflatten_loop.simps) simp
  have l2: "\<And>acc. iterflatten_loop (Itercommandchars, [], GCont ?e) d acc
      = Some (Inr (acc @ y, ?d'))"
    using n2 l3 by (subst iterflatten_loop.simps) simp
  show ?thesis
    unfolding iterflatten_def new_generator_def emptytokenlist_def
    using n1 l2 by (subst iterflatten_loop.simps) simp
qed

text \<open>
  Claim C2, as stated, fails: the right-strip works on the pending chunk only, not on
  what was emitted before, so each continuation of a run emits a space of its own. Three
  physical lines, \<^verbatim>\<open>a\<close> and a space before the backslash, a space before the backslash, a
  space and \<^verbatim>\<open>b\<close>, flatten to \<^verbatim>\<open>a\<close>, two spaces, \<^verbatim>\<open>b\<close>.
\<close>

theorem continuation_run_counterexample:
  "map_option (map_sum id fst)
     (iterflatten Itermakefilechars
        (snd (readline (DynamicData
           [(1, ''a '' @ [BS, LF]), (2, '' '' @ [BS, LF]), (3, '' b\<newline>'')] ''Makefile''))) 0)
     = Some (Inr ''a  b'')
   \<and> ''a  b'' \<noteq> ''a b''"
  by code_simp


text \<open>
  Claim C2, amended. Makefile regime: a logical line that is text \<open>x\<close>, a backslash-LF, and
  a next physical line of whitespace \<open>w\<close> and text \<open>y\<close> (texts without backslash, \<^verbatim>\<open>#\<close> and
  LF) flattens to \<open>x\<close> right-stripped, one space, and \<open>y\<close>: the trailing whitespace of
  \<open>x\<close>, the continuation and the leading whitespace \<open>w\<close> collapse to exactly one space.
  Command regime: the backslash and the LF stay in the flattened text byte for byte, and
  one TAB at the start of the next physical line is skipped.
\<close>

theorem continuation_regimes:
  assumes "data d = x @ [BS, LF]"
  shows "(list_all (\<lambda>c. c \<noteq> BS \<and> c \<noteq> CHR ''#'' \<and> c \<noteq> LF) x \<and> list_all isspace w
          \<and> list_all (\<lambda>c. c \<noteq> BS \<and> c \<noteq> CHR ''#'' \<and> c \<noteq> LF) y \<and> (y = [] \<or> \<not> isspace (hd y))
          \<and> lineiter d = (n, w @ y @ [LF]) # rest
          \<longrightarrow> iterflatten Itermakefilechars d 0
                = Some (Inr (rstrip x @ '' '' @ y, snd (readline d))))
       \<and> (list_all (\<lambda>c. c \<noteq> BS \<and> c \<noteq> LF) x \<and> list_all (\<lambda>c. c \<noteq> BS \<and> c \<noteq> LF) y
          \<and> (pre = [TAB] \<or> (pre = [] \<and> (y = [] \<or> hd y \<noteq> TAB)))
          \<and> lineiter d = (n, pre @ y @ [LF]) # rest
          \<longrightarrow> iterflatten Itercommandchars d 0
                = Some (Inr (x @ [BS, LF] @ y, snd (readline d))))"
  using assms makefile_continuation_flatten [of x w y d n rest]
    command_continuation_flatten [of x y pre d n rest]
  by blast

theorem continuation_regimes_witness:
  "iterflatten Itermakefilechars
     (snd (readline (DynamicData [(1, ''a  '' @ [BS, LF]), (2, ''   b\<newline>'')] ''Makefile''))) 0
     = Some (Inr (''a b'',
         snd (readline (snd (readline
           (DynamicData [(1, ''a  '' @ [BS, LF]), (2, ''   b\<newline>'')] ''Makefile''))))))
   \<and> iterflatten Itercommandchars
     (snd (readline (DynamicData [(1, ''a  '' @ [BS, LF]), (2, [TAB] @ '' b\<newline>'')] ''Makefile''))) 0
     = Some (Inr (''a  '' @ [BS, LF] @ '' b'',
         snd (readline (snd (readline
           (DynamicData [(1, ''a  '' @ [BS, LF]), (2, [TAB] @ '' b\<newline>'')] ''Makefile''))))))"
proof -
  define d1 where "d1 = snd (readline (DynamicData [(1, ''a  '' @ [BS, LF]), (2, ''   b\<newline>'')] ''Makefile''))"
  define d2 where "d2 = snd (readline (DynamicData [(1, ''a  '' @ [BS, LF]), (2, [TAB] @ '' b\<newline>'')] ''Makefile''))"
  have a1: "data d1 = ''a  '' @ [BS, LF]" unfolding d1_def by code_simp
  have a2: "data d2 = ''a  '' @ [BS, LF]" unfolding d2_def by code_simp
  have l1: "lineiter d1 = (2, ''   '' @ ''b'' @ [LF]) # []" unfolding d1_def by code_simp
  have l2: "lineiter d2 = (2, [TAB] @ '' b'' @ [LF]) # []" unfolding d2_def by code_simp
  have h1: "list_all (\<lambda>c. c \<noteq> BS \<and> c \<noteq> CHR ''#'' \<and> c \<noteq> LF) ''a  ''"
    "list_all isspace ''   ''"
    "list_all (\<lambda>c. c \<noteq> BS \<and> c \<noteq> CHR ''#'' \<and> c \<noteq> LF) ''b''"
    "''b'' = [] \<or> \<not> isspace (hd ''b'')"
    by (simp_all add: isspace_def)
  have h2: "list_all (\<lambda>c. c \<noteq> BS \<and> c \<noteq> LF) ''a  ''"
    "list_all (\<lambda>c. c \<noteq> BS \<and> c \<noteq> LF) '' b''"
    by simp_all
  have r: "rstrip ''a  '' @ '' '' @ ''b'' = ''a b''" by code_simp
  from continuation_regimes [OF a1, of "''   ''" "''b''" 2 "[]" "[]"] h1 l1
  have m: "iterflatten Itermakefilechars d1 0
      = Some (Inr (rstrip ''a  '' @ '' '' @ ''b'', snd (readline d1)))" by blast
  from continuation_regimes [OF a2, of "[]" "'' b''" 2 "[]" "[TAB]"] h2 l2
  have c: "iterflatten Itercommandchars d2 0
      = Some (Inr (''a  '' @ [BS, LF] @ '' b'', snd (readline d2)))" by blast
  from m [unfolded r] c show ?thesis unfolding d1_def d2_def by (intro conjI)
qed

subsection \<open>The value of a define\<close>














subsection \<open>Anchored logical lines\<close>

text \<open>An anchored logical line keeps its anchor, and \<^verbatim>\<open>getloc\<close> returns on it at every
  offset that is \<^verbatim>\<open>None\<close> or not negative.\<close>

lemma findlast_from_bound: "\<exists>y. findlast_from (Some x) P xs = Inr y"
  by (induction xs arbitrary: x) auto

lemma getloc_anchored:
  assumes "anchored d"
  shows "\<exists>l. getloc_opt d offset = Inr l"
proof -
  from assms obtain a as where l: "locs d = a # as" and a: "fst a = 0"
    by (cases "locs d") (auto simp: anchored_def)
  obtain o1 l1 where ap: "a = (o1, l1)" by (cases a)
  with a have o1: "o1 = 0" by simp
  let ?n = "int (length (data d))"
  let ?o1 = "case map_option int offset of None \<Rightarrow> ?n - 1 | Some x \<Rightarrow> if x \<ge> ?n then ?n - 1 else x"
  let ?o2 = "if ?o1 = - 1 then 0 else ?o1"
  have "0 \<le> ?o2" by (cases offset) auto
  then have "findlast (\<lambda>(x, l). int x \<le> ?o2) (locs d)
      = findlast_from (Some a) (\<lambda>(x, l). int x \<le> ?o2) as"
    by (simp add: findlast_def l ap o1)
  with findlast_from_bound [of a "\<lambda>(x, l). int x \<le> ?o2" as]
  obtain y where y: "findlast (\<lambda>(x, l). int x \<le> ?o2) (locs d) = Inr y" by auto
  obtain b lb where "y = (b, lb)" by (cases y)
  with y show ?thesis
    unfolding getloc_opt_def getloc_def Let_def by simp
qed

lemma getloc_anchored_nat:
  "anchored d \<Longrightarrow> \<exists>l. getloc d (Some (int offset)) = Inr l"
  using getloc_anchored [of d "Some offset"] by (simp add: getloc_opt_def)

lemma readline_anchored: "anchored d \<Longrightarrow> anchored (snd (readline d))"
  by (auto simp: anchored_def readline_def append_data_def split: list.splits)


lemma drain_anchored:
  "anchored d \<Longrightarrow> itermakefilechars_drain d g = Inr d' \<Longrightarrow> anchored d'"
proof (induction d g rule: itermakefilechars_drain.induct)
  case (3 d offset)
  then show ?case
    by (auto split: sum.splits option.splits)
next
  case (4 d end1)
  then show ?case by (simp add: readline_anchored)
qed simp_all

lemma suspend_data: "suspend r d = Inr (it, g, d') \<Longrightarrow> d' = d"
  by (auto simp: suspend_def split: sum.splits option.splits)

lemma iterdata_next_data: "iterdata_next tlist g d = Inr (it, g', d') \<Longrightarrow> d' = d"
  by (auto simp: iterdata_next_def iterdata_loop_def split: gstate.splits option.splits if_splits)

lemma itermakefilechars_next_anchored:
  assumes "anchored d" "itermakefilechars_next tlist g d = Inr (it, g', d')"
  shows "anchored d'"
proof (cases g)
  case (GStart x)
  with assms show ?thesis
    by (cases x) (auto simp: itermakefilechars_next_def dest: suspend_data)
next
  case (GCont e)
  with assms show ?thesis
    by (auto simp: itermakefilechars_next_def Let_def dest!: suspend_data intro: readline_anchored)
next
  case (GComment e)
  with assms(2) have "itermakefilechars_drain d (GStart (Some e)) = Inr d'"
    by (simp add: itermakefilechars_next_def del: itermakefilechars_drain.simps
        split: sum.splits)
  from drain_anchored [OF assms(1) this] show ?thesis .
qed (use assms in \<open>auto simp: itermakefilechars_next_def dest: suspend_data\<close>)

lemma itercommandchars_next_anchored:
  assumes "anchored d" "itercommandchars_next tlist g d = Inr (it, g', d')"
  shows "anchored d'"
proof (cases g)
  case (GStart x)
  with assms show ?thesis
    by (cases x) (auto simp: itercommandchars_next_def dest: suspend_data)
next
  case (GCont e)
  with assms show ?thesis
    by (auto simp: itercommandchars_next_def Let_def dest!: suspend_data intro: readline_anchored)
qed (use assms in \<open>auto simp: itercommandchars_next_def dest: suspend_data\<close>)

lemma iterdefinechars_loop_anchored:
  assumes "anchored d" "iterdefinechars_loop tlist d offset dc so = Inr (it, g', d')"
  shows "anchored d'"
proof (cases "re_search (continuationre tlist) (data d) offset")
  case None
  with assms show ?thesis
    by (auto simp: iterdefinechars_loop_def unterminated_define_def split: if_splits sum.splits)
next
  case (Some r)
  obtain t a b where "r = (t, a, b)" by (cases r)
  with Some assms show ?thesis
    by (auto simp: iterdefinechars_loop_def unterminated_define_def Let_def
        split: if_splits sum.splits intro: readline_anchored)
qed

lemma iterdefinechars_next_anchored:
  assumes "anchored d" "iterdefinechars_next tlist g d = Inr (it, g', d')"
  shows "anchored d'"
proof (cases g)
  case (GStart x)
  with assms show ?thesis
    by (cases x)
       (auto simp: iterdefinechars_next_def Let_def split: if_splits
          dest: iterdefinechars_loop_anchored)
next
  case (GDefLoop a b c)
  with assms show ?thesis
    by (auto simp: iterdefinechars_next_def dest: iterdefinechars_loop_anchored)
next
  case (GDefCont a b c)
  with assms show ?thesis
    by (auto simp: iterdefinechars_next_def Let_def
        dest: iterdefinechars_loop_anchored [OF readline_anchored])
next
  case (GDefBreak a)
  with assms show ?thesis
    by (auto simp: iterdefinechars_next_def unterminated_define_def split: sum.splits)
qed (use assms in \<open>auto simp: iterdefinechars_next_def\<close>)

lemma gen_next_anchored:
  assumes "anchored d" "gen_next di d = Inr (it, di', d')"
  shows "anchored d'"
proof -
  obtain f tlist g where di: "di = (f, tlist, g)" by (cases di)
  with assms(2) obtain g' where n: "iter_next f tlist g d = Inr (it, g', d')"
    by (auto simp: gen_next_def split: sum.splits)
  show ?thesis
  proof (cases f)
    case Iterdata
    with n assms(1) show ?thesis by (auto simp: iter_next_def dest: iterdata_next_data)
  next
    case Itermakefilechars
    with n assms(1) show ?thesis
      by (auto simp: iter_next_def dest: itermakefilechars_next_anchored)
  next
    case Itercommandchars
    with n assms(1) show ?thesis
      by (auto simp: iter_next_def dest: itercommandchars_next_anchored)
  next
    case Iterdefinechars
    with n assms(1) show ?thesis
      by (auto simp: iter_next_def dest: iterdefinechars_next_anchored)
  qed
qed



subsection \<open>Conditional blocks\<close>


lemma keeps_state:
  "s_condstack st' \<noteq> [] \<Longrightarrow>
   s_opened st' + s_closed st + length (s_condstack st)
     = s_opened st + s_closed st' + length (s_condstack st') \<Longrightarrow>
   keeps st (Some (Inr st'))"
  by (simp add: keeps_def balance_def)

lemma keeps_error [simp]: "keeps st (Some (Inl e))" "keeps st None"
  by (simp_all add: keeps_def)

lemma keeps_syntax_error [simp]: "keeps st (syntax_error msg d offset)"
  by (simp add: keeps_def syntax_error_def split: sum.splits)

lemma length_condstack_append: "cs \<noteq> [] \<Longrightarrow> length (condstack_append cs s) = length cs"
  by (simp add: condstack_append_def)

lemma condstack_append_nonempty: "condstack_append cs s \<noteq> []"
  by (simp add: condstack_append_def)

lemma length_foldl_append:
  "cs \<noteq> [] \<Longrightarrow> length (foldl condstack_append cs ss) = length cs
     \<and> foldl condstack_append cs ss \<noteq> []"
  by (induction ss arbitrary: cs)
     (simp_all add: length_condstack_append condstack_append_nonempty)

lemma keeps_append [simp]:
  "s_condstack st \<noteq> [] \<Longrightarrow> keeps st (Some (Inr (append_statements st d lg cr ss)))"
  using length_foldl_append [of "s_condstack st" ss]
  by (simp add: keeps_def balance_def append_statements_def)


































text \<open>A keyword is one only when whitespace or the end of the line follows it
  (\<^verbatim>\<open>wslist\<close>): \<^verbatim>\<open>endif#c\<close> and \<^verbatim>\<open>else#c\<close> are ordinary lines, which parse to an
  \<^verbatim>\<open>EmptyDirective\<close> and close or continue no block.\<close>

lemma keyword_needs_delimiter:
  "parsestream [] [''endif#c\<newline>''] ''Makefile''
     = Some (Inr (StatementList
         [EmptyDirective
            (Expansion (Some \<lparr>path = ''Makefile'', line = 1, column = 0\<rparr>) [Literal ''endif''])]))
   \<and> parsestream [] [''else#c\<newline>''] ''Makefile''
     = Some (Inr (StatementList
         [EmptyDirective
            (Expansion (Some \<lparr>path = ''Makefile'', line = 1, column = 0\<rparr>) [Literal ''else''])]))"
  by code_simp




subsection \<open>Unterminated expansions\<close>

text \<open>No branch of the loop touches the logical line: only the generator reads lines.\<close>

lemma loop_bottom_data:
  "loop_bottom f st n = Inr oc \<Longrightarrow> p_data (state_of oc) = p_data st"
  by (auto simp: loop_bottom_def split: if_splits)

lemma pop_append_data: "pop_append st n = Inr st' \<Longrightarrow> p_data st' = p_data st"
  by (auto simp: pop_append_def Let_def split: if_splits)

lemma dollar_branch_data:
  "dollar_branch fm f st a b = Inr oc \<Longrightarrow> p_data (state_of oc) = p_data st"
  by (auto simp: dollar_branch_def Let_def new_expansion_def split: if_splits sum.splits prod.splits option.splits
      dest!: loop_bottom_data)

lemma openparen_branch_data:
  "openparen_branch f st t a b = Inr oc \<Longrightarrow> p_data (state_of oc) = p_data st"
  by (auto simp: openparen_branch_def Let_def split: if_splits sum.splits option.splits
      dest!: loop_bottom_data)

lemma parenmatch_branch_data:
  "parenmatch_branch f st t b = Inr oc \<Longrightarrow> p_data (state_of oc) = p_data st"
  by (auto simp: parenmatch_branch_def Let_def split: if_splits dest!: loop_bottom_data)

lemma function_branch_data:
  "function_branch f st t b = Inr oc \<Longrightarrow> p_data (state_of oc) = p_data st"
  by (auto simp: function_branch_def Let_def new_expansion_def
      split: if_splits sum.splits option.splits prod.splits
      dest!: loop_bottom_data pop_append_data)

lemma varname_branch_data:
  "varname_branch f st t b = Inr oc \<Longrightarrow> p_data (state_of oc) = p_data st"
  by (auto simp: varname_branch_def Let_def new_expansion_def
      split: if_splits sum.splits option.splits prod.splits
      dest!: loop_bottom_data pop_append_data)

lemma substfrom_branch_data:
  "substfrom_branch f st t b = Inr oc \<Longrightarrow> p_data (state_of oc) = p_data st"
  by (auto simp: substfrom_branch_def Let_def new_expansion_def
      split: if_splits sum.splits option.splits prod.splits
      dest!: loop_bottom_data pop_append_data)

lemma substto_branch_data:
  "substto_branch f st t b = Inr oc \<Longrightarrow> p_data (state_of oc) = p_data st"
  by (auto simp: substto_branch_def Let_def
      split: if_splits sum.splits option.splits prod.splits
      dest!: loop_bottom_data pop_append_data)

lemma token_branch_data:
  "token_branch fm f st t a b = Inr oc \<Longrightarrow> p_data (state_of oc) = p_data st"
  unfolding token_branch_def Let_def
  by (auto split: if_splits
      dest: dollar_branch_data openparen_branch_data parenmatch_branch_data function_branch_data
        varname_branch_data substfrom_branch_data substto_branch_data)

lemma parse_iteration_data:
  assumes "parse_iteration fm f st = Inr oc"
  shows "\<exists>it di'. gen_next (p_di st) (p_data st) = Inr (it, di', p_data (state_of oc))"
proof -
  from assms have ne: "p_stack st \<noteq> []" by (auto simp: parse_iteration_def split: if_splits)
  from assms ne obtain it di' d' where g: "gen_next (p_di st) (p_data st) = Inr (it, di', d')"
    by (cases "gen_next (p_di st) (p_data st)") (auto simp: parse_iteration_def)
  have "p_data (state_of oc) = d'"
  proof (cases it)
    case None
    with assms ne g show ?thesis by (auto simp: parse_iteration_def)
  next
    case (Some a)
    obtain s tok where a: "a = (s, tok)" by (cases a)
    show ?thesis
    proof (cases tok)
      case None
      with assms ne g Some a show ?thesis by (auto simp: parse_iteration_def)
    next
      case (Some tk)
      obtain t x y where tk: "tk = (t, x, y)" by (cases tk)
      from assms ne g \<open>it = Some a\<close> a Some tk show ?thesis
        by (auto simp: parse_iteration_def Let_def dest!: token_branch_data)
    qed
  qed
  with g show ?thesis by (intro exI [of _ it] exI [of _ di']) simp
qed

lemma parse_iteration_anchored:
  "anchored (p_data st) \<Longrightarrow> parse_iteration fm f st = Inr oc \<Longrightarrow> anchored (p_data (state_of oc))"
  using parse_iteration_data [of fm f st oc] gen_next_anchored by blast


lemma iterations_loop:
  "iterations fm f n st = Some st' \<Longrightarrow> parse_loop fm f st = parse_loop fm f st'"
proof (induction n arbitrary: st)
  case 0
  then show ?case by simp
next
  case (Suc n)
  from Suc.prems obtain st1 where p: "parse_iteration fm f st = Inr (Continue st1)"
    and i: "iterations fm f n st1 = Some st'"
    by (auto split: sum.splits outcome.splits)
  have "parse_loop fm f st = parse_loop fm f st1"
    using p by (subst parse_loop.simps) simp
  with Suc.IH [OF i] show ?case by simp
qed

lemma iterations_anchored:
  "anchored (p_data st) \<Longrightarrow> iterations fm f n st = Some st' \<Longrightarrow> anchored (p_data st')"
proof (induction n arbitrary: st)
  case 0
  then show ?case by simp
next
  case (Suc n)
  from Suc.prems(2) obtain st1 where p: "parse_iteration fm f st = Inr (Continue st1)"
    and i: "iterations fm f n st1 = Some st'"
    by (auto split: sum.splits outcome.splits)
  from parse_iteration_anchored [OF Suc.prems(1) p] have "anchored (p_data st1)" by simp
  from Suc.IH [OF this i] show ?case .
qed

text \<open>
  Claim C5. Take a call \<^verbatim>\<open>parsemakesyntax(d, startat, stopon, iterfunc)\<close> on a logical line
  that has read a physical line, and a state that the loop reaches after some passes. If
  in that state the generator is exhausted and the stack holds more than the top-level
  frame, the call raises \<^verbatim>\<open>SyntaxError("Unterminated function call")\<close>, with the location
  that \<^verbatim>\<open>getloc\<close> gives for the last value of \<^verbatim>\<open>offset\<close>.
\<close>

theorem unterminated_function_call:
  assumes "anchored d"
    and "getloc d (Some (int startat)) = Inr loc1"
    and "iterations fm iterfunc n (initial_pstate d startat stopon1 iterfunc lg loc1) = Some st"
    and "gen_next (p_di st) (p_data st) = Inr (None, di', d')"
    and "1 < length (p_stack st)"
  shows "\<exists>loc. getloc_opt d' (p_offset st) = Inr loc \<and>
           parsemakesyntax fm d startat stopon1 iterfunc lg
             = Some (Inl (SyntaxError ''Unterminated function call'' loc))"
proof -
  let ?st0 = "initial_pstate d startat stopon1 iterfunc lg loc1"
  have "anchored (p_data ?st0)" using assms(1) by (simp add: initial_pstate_def)
  from iterations_anchored [OF this assms(3)] have a: "anchored (p_data st)" .
  from gen_next_anchored [OF a assms(4)] have a': "anchored d'" .
  from getloc_anchored [OF a'] obtain loc where l: "getloc_opt d' (p_offset st) = Inr loc"
    by blast
  from assms(5) have ne: "p_stack st \<noteq> []" by auto
  have it: "parse_iteration fm iterfunc st = Inr (Break (st\<lparr>p_di := di', p_data := d'\<rparr>))"
    using ne assms(4) by (simp add: parse_iteration_def)
  have al: "after_loop (st\<lparr>p_di := di', p_data := d'\<rparr>)
      = Inl (SyntaxError ''Unterminated function call'' loc)"
    using assms(5) l by (simp add: after_loop_def)
  have "parse_loop fm iterfunc st = Some (Inl (SyntaxError ''Unterminated function call'' loc))"
    using it al by (subst parse_loop.simps) simp
  with iterations_loop [OF assms(3)] assms(2) l show ?thesis
    by (simp add: parsemakesyntax_def)
qed

theorem unterminated_function_call_witness:
  "parsemakesyntax [(''addprefix'', 2)]
       (snd (readline (DynamicData [(1, ''$(foo\<newline>'')] ''Makefile''))) 0 [] Itermakefilechars []
     = Some (Inl (SyntaxError ''Unterminated function call''
                    \<lparr>path = ''Makefile'', line = 1, column = 5\<rparr>))"
proof -
  define d where "d = snd (readline (DynamicData [(1::nat, ''$(foo\<newline>'')] ''Makefile''))"
  define st0 where "st0 = initial_pstate d 0 [] Itermakefilechars []
      \<lparr>path = ''Makefile'', line = 1, column = 0\<rparr>"
  define st where "st = the (iterations [(''addprefix'', 2)] Itermakefilechars 2 st0)"
  have a: "anchored d" unfolding d_def anchored_def by code_simp
  have g: "getloc d (Some (int 0)) = Inr \<lparr>path = ''Makefile'', line = 1, column = 0\<rparr>"
    unfolding d_def by code_simp
  have i: "iterations [(''addprefix'', 2)] Itermakefilechars 2
      (initial_pstate d 0 [] Itermakefilechars [] \<lparr>path = ''Makefile'', line = 1, column = 0\<rparr>)
      = Some st"
    unfolding st_def st0_def d_def by code_simp
  have n: "gen_next (p_di st) (p_data st) = Inr (None, fst (snd (projr (gen_next (p_di st) (p_data st)))), d)"
    unfolding st_def st0_def d_def by code_simp
  have l: "1 < length (p_stack st)" unfolding st_def st0_def d_def by code_simp
  have o: "getloc_opt d (p_offset st) = Inr \<lparr>path = ''Makefile'', line = 1, column = 5\<rparr>"
    unfolding st_def st0_def d_def by code_simp
  from unterminated_function_call [OF a g i n l] o show ?thesis
    unfolding d_def by simp
qed

end
